theory Spec2Isabelle
  imports Main
begin

section \<open>Data generation pipeline of \<^verbatim>\<open>data_generation/generate.py\<close>\<close>

text \<open>
  The script probes two local inference servers, plans where to resume from the number of
  lines already in the output file, and submits one call of \<^verbatim>\<open>generate_data\<close> per
  remaining sample to a thread pool. This theory embeds the script function by function.
  Python text is a \<open>string\<close> whose characters stand for the code points below 256; JSON
  objects are association lists in insertion order; every exception the script can raise
  is a value of the type \<open>error\<close>. Console output (\<^verbatim>\<open>print\<close>, the progress bar) is
  not modelled.
\<close>

subsection \<open>JSON values, dictionaries and exceptions\<close>

datatype jval = JNull | JStr string

type_synonym dict = "(string \<times> jval) list"

datatype error =
    ZeroDivisionError
  | IndexError
  | KeyError string
  | FileNotFoundError
  | IsADirectoryError
  | NotADirectoryError
  | FileExistsError

text \<open>\<^verbatim>\<open>d[k]\<close> on a dict: the value, or KeyError.\<close>

definition getitem :: "dict \<Rightarrow> string \<Rightarrow> error + jval" where
  "getitem d k = (case map_of d k of None \<Rightarrow> Inl (KeyError k) | Some v \<Rightarrow> Inr v)"

subsection \<open>Library functions on text: \<^verbatim>\<open>str.strip\<close> and \<^verbatim>\<open>json.dumps\<close>\<close>

text \<open>
  \<^verbatim>\<open>str.isspace\<close> on the code points below 256: TAB to CR, FS to US, space, NEL and
  the no-break space.
\<close>

definition isspace :: "char \<Rightarrow> bool" where
  "isspace c =
     (let n = (of_char c :: nat)
      in (9 \<le> n \<and> n \<le> 13) \<or> (28 \<le> n \<and> n \<le> 32) \<or> n = 133 \<or> n = 160)"

definition strip :: "string \<Rightarrow> string" where
  "strip s = rev (dropWhile isspace (rev (dropWhile isspace s)))"

definition hex_digit :: "nat \<Rightarrow> char" where
  "hex_digit n = ''0123456789abcdef'' ! (n mod 16)"

text \<open>
  \<^verbatim>\<open>json.dumps\<close> with its defaults (\<^verbatim>\<open>ensure_ascii=True\<close>, separators
  \<^verbatim>\<open>", "\<close> and \<^verbatim>\<open>": "\<close>): the short escapes first, every other character outside
  space..tilde as \<^verbatim>\<open>\u00xx\<close>.
\<close>

definition escape_char :: "char \<Rightarrow> string" where
  "escape_char c =
     (if c = CHR 0x5C then [CHR 0x5C, CHR 0x5C]
      else if c = CHR 0x22 then [CHR 0x5C, CHR 0x22]
      else if c = CHR 0x08 then [CHR 0x5C, CHR ''b'']
      else if c = CHR 0x0C then [CHR 0x5C, CHR ''f'']
      else if c = CHR 0x0A then [CHR 0x5C, CHR ''n'']
      else if c = CHR 0x0D then [CHR 0x5C, CHR ''r'']
      else if c = CHR 0x09 then [CHR 0x5C, CHR ''t'']
      else if 32 \<le> (of_char c :: nat) \<and> (of_char c :: nat) \<le> 126 then [c]
      else [CHR 0x5C, CHR ''u'', CHR ''0'', CHR ''0'',
            hex_digit ((of_char c :: nat) div 16), hex_digit (of_char c :: nat)])"

definition dumps_str :: "string \<Rightarrow> string" where
  "dumps_str s = [CHR 0x22] @ concat (map escape_char s) @ [CHR 0x22]"

fun dumps_jval :: "jval \<Rightarrow> string" where
  "dumps_jval JNull = ''null''"
| "dumps_jval (JStr s) = dumps_str s"

fun join :: "string \<Rightarrow> string list \<Rightarrow> string" where
  "join sep [] = []"
| "join sep [x] = x"
| "join sep (x # y # ys) = x @ sep @ join sep (y # ys)"

definition dumps_dict :: "dict \<Rightarrow> string" where
  "dumps_dict d =
     ''{'' @ join '', '' (map (\<lambda>(k, v). dumps_str k @ '': '' @ dumps_jval v) d) @ ''}''"

definition dumps_list :: "dict list \<Rightarrow> string" where
  "dumps_list ds = ''['' @ join '', '' (map dumps_dict ds) @ '']''"

text \<open>\<^verbatim>\<open>json.dumps({"conversations": output_conv})\<close> and \<^verbatim>\<open>json.dumps({"text": s})\<close>.\<close>

definition dumps_conversations :: "dict list \<Rightarrow> string" where
  "dumps_conversations ds = ''{'' @ dumps_str ''conversations'' @ '': '' @ dumps_list ds @ ''}''"

definition dumps_text :: "string \<Rightarrow> string" where
  "dumps_text s = ''{'' @ dumps_str ''text'' @ '': '' @ dumps_str s @ ''}''"

subsection \<open>The file system\<close>

text \<open>
  A path is its list of components below the root. The root is always a directory.
\<close>

type_synonym path = "string list"

record filesystem =
  dirs :: "path set"
  files :: "path \<rightharpoonup> string"

definition is_dir :: "filesystem \<Rightarrow> path \<Rightarrow> bool" where
  "is_dir fs p = (p = [] \<or> p \<in> dirs fs)"

definition path_exists :: "filesystem \<Rightarrow> path \<Rightarrow> bool" where
  "path_exists fs p = (is_dir fs p \<or> files fs p \<noteq> None)"

text \<open>The path itself and the directories above it, the root left out, outermost first.\<close>

fun ancestors :: "path \<Rightarrow> path list" where
  "ancestors [] = []"
| "ancestors (x # xs) = [x] # map ((#) x) (ancestors xs)"

text \<open>\<^verbatim>\<open>Path.mkdir(parents=True, exist_ok=True)\<close>.\<close>

definition mkdir_parents :: "filesystem \<Rightarrow> path \<Rightarrow> error + filesystem" where
  "mkdir_parents fs p =
     (if files fs p \<noteq> None then Inl FileExistsError
      else if \<exists>q \<in> set (ancestors p). files fs q \<noteq> None then Inl NotADirectoryError
      else Inr (fs\<lparr>dirs := dirs fs \<union> set (ancestors p)\<rparr>))"

text \<open>\<^verbatim>\<open>Path.touch()\<close>: creates an empty file where there is none.\<close>

definition touch :: "filesystem \<Rightarrow> path \<Rightarrow> error + filesystem" where
  "touch fs p =
     (if path_exists fs p then Inr fs
      else if \<not> is_dir fs (butlast p) then Inl FileNotFoundError
      else Inr (fs\<lparr>files := (files fs)(p \<mapsto> [])\<rparr>))"

text \<open>\<^verbatim>\<open>open(p)\<close> for reading, and \<^verbatim>\<open>open(p, "a")\<close> followed by one \<^verbatim>\<open>write\<close>.\<close>

definition open_read :: "filesystem \<Rightarrow> path \<Rightarrow> error + string" where
  "open_read fs p =
     (if is_dir fs p then Inl IsADirectoryError
      else case files fs p of None \<Rightarrow> Inl FileNotFoundError | Some c \<Rightarrow> Inr c)"

definition open_append :: "filesystem \<Rightarrow> path \<Rightarrow> string \<Rightarrow> error + filesystem" where
  "open_append fs p s =
     (if is_dir fs p then Inl IsADirectoryError
      else if \<not> is_dir fs (butlast p) then Inl FileNotFoundError
      else Inr (fs\<lparr>files := (files fs)(p \<mapsto> (case files fs p of None \<Rightarrow> s | Some c \<Rightarrow> c @ s))\<rparr>))"

text \<open>
  The number of lines a text-mode file iterator yields (\<^verbatim>\<open>sum(1 for _ in f)\<close>): one per
  line terminator LF, CR or CR LF (universal newlines), and one more for a last line that
  has no terminator.
\<close>

fun count_lines :: "string \<Rightarrow> nat" where
  "count_lines [] = 0"
| "count_lines [c] = 1"
| "count_lines (c # d # cs) =
     (if c = CHR 0x0D \<and> d = CHR 0x0A then count_lines (d # cs)
      else if c = CHR 0x0A \<or> c = CHR 0x0D then Suc (count_lines (d # cs))
      else count_lines (d # cs))"

subsection \<open>Backends\<close>

text \<open>
  A candidate address \<^verbatim>\<open>http://localhost:{port}/v1\<close> is identified by its port.
  A backend is known by its interface only: listing its models (\<open>None\<close> is a raised
  exception), a chat completion on a context, a text completion on a prompt. The token
  budget and the temperature are the same in every call of a run and are part of the
  backend's behaviour here. A chat response is the finish reason and the text of its first
  choice, a text response the text of its first choice. Within one unit of work every chat
  call has a longer context than the one before, so a function of the context can return
  any sequence of answers.
\<close>

datatype base_url = Localhost nat

datatype chat_result = ChatError | ChatResponse string string

datatype text_result = TextError | TextResponse string

record backend =
  models_list :: "string list option"
  chat_create :: "string \<Rightarrow> dict list \<Rightarrow> chat_result"
  completions_create :: "string \<Rightarrow> string \<Rightarrow> text_result"

text \<open>What a unit of work does to its client, in order.\<close>

datatype event =
    ClientNew base_url
  | ModelsList
  | ChatCreate string "dict list"
  | CompletionsCreate string string
  | ClientClose

text \<open>
  Lines 49 to 63: the ports 8000 and 8001 are probed in order; an address joins the pool
  when the listing succeeds with at least one model.
\<close>

definition probe_pool :: "(nat \<Rightarrow> string list option) \<Rightarrow> base_url list" where
  "probe_pool probe =
     map Localhost
       (filter (\<lambda>port. case probe port of None \<Rightarrow> False | Some ms \<Rightarrow> ms \<noteq> []) [8000, 8001])"

subsection \<open>One unit of work: \<^verbatim>\<open>generate_data\<close>\<close>

text \<open>
  The globals \<^verbatim>\<open>generate_data\<close> reads: the pool, the arguments, the servers behind the
  addresses, and the prompt renderer of the conversation template (model name, system
  message if one was set, first user message).
\<close>

record env =
  api_base_pool :: "base_url list"
  output_path :: path
  chat :: bool
  backend_of :: "base_url \<Rightarrow> backend"
  get_prompt :: "string \<Rightarrow> jval option \<Rightarrow> jval \<Rightarrow> string"

datatype outcome = Returned | Raised error

record unit_result =
  outcome :: outcome
  events :: "event list"
  fs_after :: filesystem

definition system_message :: "jval \<Rightarrow> dict" where
  "system_message t = [(''role'', JStr ''system''), (''content'', t)]"

definition user_message :: "jval \<Rightarrow> dict" where
  "user_message v = [(''role'', JStr ''user''), (''content'', v)]"

definition assistant_message :: "string \<Rightarrow> dict" where
  "assistant_message a = [(''role'', JStr ''assistant''), (''content'', JStr a)]"

definition gpt_turn :: "string \<Rightarrow> dict" where
  "gpt_turn a = [(''from'', JStr ''gpt''), (''value'', JStr a)]"

text \<open>
  Lines 98 to 105: the two accumulators and the optional leading system message. The
  result is \<open>(converted, output_conv, messages)\<close>.
\<close>

fun leading_system :: "dict list \<Rightarrow> error + (dict list \<times> dict list \<times> dict list)" where
  "leading_system [] = Inr ([], [], [])"
| "leading_system (m # ms) =
     (case getitem m ''from'' of
        Inl e \<Rightarrow> Inl e
      | Inr f \<Rightarrow>
          if f = JStr ''system'' then
            (case getitem m ''text'' of
               Inl e \<Rightarrow> Inl e
             | Inr t \<Rightarrow> Inr ([system_message t], [m], ms))
          else Inr ([], [], m # ms))"

text \<open>\<^verbatim>\<open>messages[::2]\<close>.\<close>

fun every_other :: "'a list \<Rightarrow> 'a list" where
  "every_other [] = []"
| "every_other [x] = [x]"
| "every_other (x # y # xs) = x # every_other xs"

record replay =
  converted :: "dict list"
  output_conv :: "dict list"
  calls :: "event list"

datatype loop_exit = Ended | Return | Raise error

text \<open>
  Lines 107 to 128, one equation per way the \<^verbatim>\<open>for\<close> loop goes on: \<open>Ended\<close> is the
  end of the iteration or a \<^verbatim>\<open>break\<close>, \<open>Return\<close> the \<^verbatim>\<open>return\<close> of line 109.
\<close>

fun chat_loop :: "backend \<Rightarrow> string \<Rightarrow> dict list \<Rightarrow> replay \<Rightarrow> loop_exit \<times> replay" where
  "chat_loop client model_name [] st = (Ended, st)"
| "chat_loop client model_name (m # ms) st =
     (case getitem m ''from'' of
        Inl e \<Rightarrow> (Raise e, st)
      | Inr f \<Rightarrow>
          if f \<noteq> JStr ''human'' then (Return, st)
          else
            (case getitem m ''value'' of
               Inl e \<Rightarrow> (Raise e, st)
             | Inr v \<Rightarrow>
                 let conv = converted st @ [user_message v];
                     st1 = st\<lparr>converted := conv, calls := calls st @ [ChatCreate model_name conv]\<rparr>
                 in (case chat_create client model_name conv of
                       ChatError \<Rightarrow> (Ended, st1)
                     | ChatResponse finish_reason content \<Rightarrow>
                         if finish_reason = ''length'' then (Ended, st1)
                         else
                           let assistant_answer = strip content
                           in chat_loop client model_name ms
                                (st1\<lparr>output_conv := output_conv st1 @ [m, gpt_turn assistant_answer],
                                     converted := conv @ [assistant_message assistant_answer]\<rparr>))))"

text \<open>
  Lines 97 to 135, chat mode. \<open>ev\<close> are the events before the mode starts.
\<close>

definition chat_mode ::
  "env \<Rightarrow> backend \<Rightarrow> string \<Rightarrow> dict list \<Rightarrow> event list \<Rightarrow> filesystem \<Rightarrow> unit_result" where
  "chat_mode e client model_name messages ev fs =
     (case leading_system messages of
        Inl err \<Rightarrow> \<lparr>outcome = Raised err, events = ev, fs_after = fs\<rparr>
      | Inr (conv0, out0, rest) \<Rightarrow>
          (case chat_loop client model_name (every_other rest)
                  \<lparr>converted = conv0, output_conv = out0, calls = ev\<rparr> of
             (Raise err, st) \<Rightarrow> \<lparr>outcome = Raised err, events = calls st, fs_after = fs\<rparr>
           | (Return, st) \<Rightarrow> \<lparr>outcome = Returned, events = calls st, fs_after = fs\<rparr>
           | (Ended, st) \<Rightarrow>
               if output_conv st = [] then
                 \<lparr>outcome = Returned, events = calls st, fs_after = fs\<rparr>
               else
                 (case open_append fs (output_path e)
                         (dumps_conversations (output_conv st) @ [CHR 0x0A]) of
                    Inl err \<Rightarrow> \<lparr>outcome = Raised err, events = calls st, fs_after = fs\<rparr>
                  | Inr fs' \<Rightarrow> \<lparr>outcome = Returned, events = calls st, fs_after = fs'\<rparr>)))"

text \<open>
  Lines 140 to 146: the prompt of completion mode, from the optional system message and
  the first message after it. \<^verbatim>\<open>messages[0]\<close> raises IndexError on an empty list.
\<close>

definition build_prompt :: "env \<Rightarrow> string \<Rightarrow> dict list \<Rightarrow> error + string" where
  "build_prompt e model_name messages =
     (case messages of
        [] \<Rightarrow> Inl IndexError
      | m # ms \<Rightarrow>
          (case getitem m ''from'' of
             Inl err \<Rightarrow> Inl err
           | Inr f \<Rightarrow>
               if f = JStr ''system'' then
                 (case getitem m ''text'' of
                    Inl err \<Rightarrow> Inl err
                  | Inr t \<Rightarrow>
                      (case ms of
                         [] \<Rightarrow> Inl IndexError
                       | u # _ \<Rightarrow>
                           (case getitem u ''value'' of
                              Inl err \<Rightarrow> Inl err
                            | Inr v \<Rightarrow> Inr (get_prompt e model_name (Some t) v))))
               else
                 (case getitem m ''value'' of
                    Inl err \<Rightarrow> Inl err
                  | Inr v \<Rightarrow> Inr (get_prompt e model_name None v))))"

text \<open>
  Lines 138 to 169, completion mode. The \<^verbatim>\<open>finally\<close> clause closes the client after
  the completion call, whether it raised or not.
\<close>

definition completion_mode ::
  "env \<Rightarrow> backend \<Rightarrow> string \<Rightarrow> dict list \<Rightarrow> event list \<Rightarrow> filesystem \<Rightarrow> unit_result" where
  "completion_mode e client model_name messages ev fs =
     (case build_prompt e model_name messages of
        Inl err \<Rightarrow> \<lparr>outcome = Raised err, events = ev, fs_after = fs\<rparr>
      | Inr prompt \<Rightarrow>
          (let ev1 = ev @ [CompletionsCreate model_name prompt, ClientClose]
           in case completions_create client model_name prompt of
                TextError \<Rightarrow> \<lparr>outcome = Returned, events = ev1, fs_after = fs\<rparr>
              | TextResponse text \<Rightarrow>
                  (case open_append fs (output_path e)
                          (dumps_text (prompt @ strip text) @ [CHR 0x0A]) of
                     Inl err \<Rightarrow> \<lparr>outcome = Raised err, events = ev1, fs_after = fs\<rparr>
                   | Inr fs' \<Rightarrow> \<lparr>outcome = Returned, events = ev1, fs_after = fs'\<rparr>)))"

text \<open>
  Line 88: \<^verbatim>\<open>api_base_pool[idx % len(api_base_pool)]\<close>. The modulo raises on an
  empty pool.
\<close>

definition select_base_url :: "base_url list \<Rightarrow> nat \<Rightarrow> error + base_url" where
  "select_base_url pool idx =
     (if length pool = 0 then Inl ZeroDivisionError else Inr (pool ! (idx mod length pool)))"

text \<open>
  Lines 83 to 169. The listing of line 92 fails when the call raises and when the server
  lists no model (\<^verbatim>\<open>data[0]\<close> raises IndexError, caught by the same handler).
\<close>

definition generate_data :: "env \<Rightarrow> dict list \<Rightarrow> nat \<Rightarrow> filesystem \<Rightarrow> unit_result" where
  "generate_data e messages idx fs =
     (case select_base_url (api_base_pool e) idx of
        Inl err \<Rightarrow> \<lparr>outcome = Raised err, events = [], fs_after = fs\<rparr>
      | Inr base_url \<Rightarrow>
          (let client = backend_of e base_url;
               ev = [ClientNew base_url, ModelsList]
           in case models_list client of
                None \<Rightarrow> \<lparr>outcome = Returned, events = ev, fs_after = fs\<rparr>
              | Some [] \<Rightarrow> \<lparr>outcome = Returned, events = ev, fs_after = fs\<rparr>
              | Some (model_name # _) \<Rightarrow>
                  if chat e then chat_mode e client model_name messages ev fs
                  else completion_mode e client model_name messages ev fs))"

subsection \<open>Resume planning and dispatch\<close>

text \<open>Line 176, the path written into the script.\<close>

definition file_path :: path where
  "file_path = [''home'', ''nxclab'', ''wonjun'', ''Medusa'', ''ShareGPT_Vicuna_unfiltered'',
                ''train_shareGPT_llama3.2_1B.jsonl'']"

text \<open>Lines 177 to 179.\<close>

definition ensure_file_path :: "filesystem \<Rightarrow> error + filesystem" where
  "ensure_file_path fs =
     (if \<not> path_exists fs file_path then
        (case mkdir_parents fs (butlast file_path) of
           Inl err \<Rightarrow> Inl err
         | Inr fs1 \<Rightarrow> touch fs1 file_path)
      else Inr fs)"

text \<open>Lines 175 and 181 to 184.\<close>

definition start_idx :: "filesystem \<Rightarrow> path \<Rightarrow> error + nat" where
  "start_idx fs out =
     (if path_exists fs out then
        (case open_read fs out of Inl err \<Rightarrow> Inl err | Inr content \<Rightarrow> Inr (count_lines content))
      else Inr 0)"

record sample =
  sample_id :: jval
  conversations :: "dict list"

text \<open>
  Lines 191 to 194: the arguments of the submitted calls, in submission order.
\<close>

definition submitted :: "sample list \<Rightarrow> nat \<Rightarrow> (dict list \<times> nat) list" where
  "submitted data start =
     map (\<lambda>(i, s). (conversations s, i + start)) (enumerate 0 (drop start data))"

text \<open>
  The units run concurrently in the script. \<open>run_units\<close> is the schedule that runs them
  one after the other in submission order; an exception of a unit stays in its future
  (\<^verbatim>\<open>result()\<close> is never called) and the next unit runs.
\<close>

fun run_units :: "env \<Rightarrow> (dict list \<times> nat) list \<Rightarrow> filesystem \<Rightarrow> unit_result list \<times> filesystem" where
  "run_units e [] fs = ([], fs)"
| "run_units e ((messages, idx) # ts) fs =
     (let r = generate_data e messages idx fs;
          (rs, fs') = run_units e ts (fs_after r)
      in (r # rs, fs'))"

record run_result =
  exit_code :: nat
  units :: "unit_result list"
  final_fs :: filesystem

text \<open>
  The script from probing to exit. An exception in the main thread ends the process with
  exit code 1 before anything is submitted; otherwise the process ends with exit code 0
  when every unit is done.
\<close>

definition main :: "(nat \<Rightarrow> string list option) \<Rightarrow> env \<Rightarrow> sample list \<Rightarrow> filesystem \<Rightarrow> run_result" where
  "main probe e0 data fs =
     (let e = e0\<lparr>api_base_pool := probe_pool probe\<rparr>
      in case ensure_file_path fs of
           Inl err \<Rightarrow> \<lparr>exit_code = 1, units = [], final_fs = fs\<rparr>
         | Inr fs1 \<Rightarrow>
             (case start_idx fs1 (output_path e) of
                Inl err \<Rightarrow> \<lparr>exit_code = 1, units = [], final_fs = fs1\<rparr>
              | Inr start \<Rightarrow>
                  (let (rs, fs2) = run_units e (submitted data start) fs1
                   in \<lparr>exit_code = 0, units = rs, final_fs = fs2\<rparr>)))"

subsection \<open>Notions used in the statements\<close>

text \<open>
  The address a unit with index \<open>idx\<close> is expected to use, the value of a field of a turn
  (null where the key is missing), the leading system turn of a sample as a list of at most
  one turn, the context it seeds, and the turns at the user positions after it.
\<close>

definition assigned :: "env \<Rightarrow> nat \<Rightarrow> base_url" where
  "assigned e idx = api_base_pool e ! (idx mod length (api_base_pool e))"

definition field :: "dict \<Rightarrow> string \<Rightarrow> jval" where
  "field d k = (case map_of d k of None \<Rightarrow> JNull | Some v \<Rightarrow> v)"

definition system_turns :: "dict list \<Rightarrow> dict list" where
  "system_turns messages =
     (case messages of
        [] \<Rightarrow> []
      | m # _ \<Rightarrow> if map_of m ''from'' = Some (JStr ''system'') then [m] else [])"

definition system_context :: "dict list \<Rightarrow> dict list" where
  "system_context messages = map (\<lambda>m. system_message (field m ''text'')) (system_turns messages)"

definition user_turns :: "dict list \<Rightarrow> dict list" where
  "user_turns messages = every_other (drop (length (system_turns messages)) messages)"

text \<open>
  \<open>answered client model ctx ms rs\<close>: starting from the context \<open>ctx\<close>, each turn of
  \<open>ms\<close> is a human turn with a value, and the chat call made for it returned the text at
  the same position of \<open>rs\<close> with a finish reason other than \<^verbatim>\<open>length\<close>.
\<close>

fun answered :: "backend \<Rightarrow> string \<Rightarrow> dict list \<Rightarrow> dict list \<Rightarrow> string list \<Rightarrow> bool" where
  "answered client model_name ctx [] rs = (rs = [])"
| "answered client model_name ctx (m # ms) [] = False"
| "answered client model_name ctx (m # ms) (r # rs) =
     (map_of m ''from'' = Some (JStr ''human'') \<and> map_of m ''value'' \<noteq> None \<and>
      (case chat_create client model_name (ctx @ [user_message (field m ''value'')]) of
         ChatError \<Rightarrow> False
       | ChatResponse finish_reason content \<Rightarrow> finish_reason \<noteq> ''length'' \<and> content = r) \<and>
      answered client model_name
        (ctx @ [user_message (field m ''value''), assistant_message (strip r)]) ms rs)"

text \<open>The context entries and the record entries of completed user/assistant pairs.\<close>

definition pairs_context :: "dict list \<Rightarrow> string list \<Rightarrow> dict list" where
  "pairs_context ms rs =
     concat (map (\<lambda>(m, r). [user_message (field m ''value''), assistant_message (strip r)]) (zip ms rs))"

definition pairs_record :: "dict list \<Rightarrow> string list \<Rightarrow> dict list" where
  "pairs_record ms rs = concat (map (\<lambda>(m, r). [m, gpt_turn (strip r)]) (zip ms rs))"

text \<open>The loop state after the turns \<open>ms\<close> were answered by \<open>rs\<close>.\<close>

fun after_turns :: "string \<Rightarrow> dict list \<Rightarrow> string list \<Rightarrow> replay \<Rightarrow> replay" where
  "after_turns model_name (m # ms) (r # rs) st =
     after_turns model_name ms rs
       \<lparr>converted = converted st @ [user_message (field m ''value''), assistant_message (strip r)],
        output_conv = output_conv st @ [m, gpt_turn (strip r)],
        calls = calls st @ [ChatCreate model_name (converted st @ [user_message (field m ''value'')])]\<rparr>"
| "after_turns model_name ms rs st = st"

text \<open>The file system with \<open>s\<close> appended to the file at \<open>p\<close> (created when missing).\<close>

definition append_line :: "filesystem \<Rightarrow> path \<Rightarrow> string \<Rightarrow> filesystem" where
  "append_line fs p s =
     fs\<lparr>files := (files fs)(p \<mapsto> (case files fs p of None \<Rightarrow> [] | Some c \<Rightarrow> c) @ s)\<rparr>"

definition writable :: "filesystem \<Rightarrow> path \<Rightarrow> bool" where
  "writable fs p = (is_dir fs (butlast p) \<and> \<not> is_dir fs p)"

subsection \<open>Concrete runs\<close>

definition out_path :: path where
  "out_path = [''out'', ''train.jsonl'']"

definition fs_ready :: filesystem where
  "fs_ready = \<lparr>dirs = {[''out'']}, files = Map.empty\<rparr>"

definition fs_bare :: filesystem where
  "fs_bare = \<lparr>dirs = {}, files = Map.empty\<rparr>"

text \<open>An output file with two finished lines.\<close>

definition fs_two_lines :: filesystem where
  "fs_two_lines =
     \<lparr>dirs = {[''out'']},
      files = [out_path \<mapsto> ''{}'' @ [CHR 0x0A] @ ''{}'' @ [CHR 0x0A]]\<rparr>"

text \<open>A backend that answers every chat call with the text 4 and the finish reason stop.\<close>

definition stub_backend :: backend where
  "stub_backend =
     \<lparr>models_list = Some [''vicuna''],
      chat_create = (\<lambda>model_name ctx. ChatResponse ''stop'' ''4''),
      completions_create = (\<lambda>model_name prompt. TextResponse '' 4 '')\<rparr>"

text \<open>A backend whose chat calls are all cut off by the length limit.\<close>

definition truncating_backend :: backend where
  "truncating_backend = stub_backend\<lparr>chat_create := (\<lambda>model_name ctx. ChatResponse ''length'' ''fo'')\<rparr>"

text \<open>A backend whose chat calls all raise.\<close>

definition failing_backend :: backend where
  "failing_backend = stub_backend\<lparr>chat_create := (\<lambda>model_name ctx. ChatError)\<rparr>"

text \<open>A backend that answers the first chat call of a conversation and raises afterwards.\<close>

definition once_backend :: backend where
  "once_backend =
     stub_backend\<lparr>chat_create :=
       (\<lambda>model_name ctx. if length ctx = 1 then ChatResponse ''stop'' ''4'' else ChatError)\<rparr>"

text \<open>A backend that died after probing: its model listing raises.\<close>

definition dead_backend :: backend where
  "dead_backend = stub_backend\<lparr>models_list := None\<rparr>"

definition stub_env :: env where
  "stub_env =
     \<lparr>api_base_pool = [Localhost 8000], output_path = out_path, chat = True,
      backend_of = (\<lambda>u. stub_backend),
      get_prompt = (\<lambda>model_name sys v. ''USER: hi ASSISTANT:'')\<rparr>"

definition terse_sample :: "dict list" where
  "terse_sample =
     [[(''from'', JStr ''system''), (''text'', JStr ''be terse'')],
      [(''from'', JStr ''human''), (''value'', JStr ''2+2?'')],
      [(''from'', JStr ''gpt''), (''value'', JNull)]]"

text \<open>A system turn and one human turn.\<close>

definition short_sample :: "dict list" where
  "short_sample =
     [[(''from'', JStr ''system''), (''text'', JStr ''be terse'')],
      [(''from'', JStr ''human''), (''value'', JStr ''2+2?'')]]"

text \<open>Two well-formed exchanges, then an assistant turn where a human turn is expected.\<close>

definition misordered_sample :: "dict list" where
  "misordered_sample =
     [[(''from'', JStr ''human''), (''value'', JStr ''2+2?'')],
      [(''from'', JStr ''gpt''), (''value'', JStr ''4'')],
      [(''from'', JStr ''human''), (''value'', JStr ''3+3?'')],
      [(''from'', JStr ''gpt''), (''value'', JStr ''6'')],
      [(''from'', JStr ''gpt''), (''value'', JStr ''9'')]]"

definition three_samples :: "sample list" where
  "three_samples =
     [\<lparr>sample_id = JStr ''a'', conversations = terse_sample\<rparr>,
      \<lparr>sample_id = JStr ''b'', conversations = short_sample\<rparr>,
      \<lparr>sample_id = JStr ''c'', conversations = misordered_sample\<rparr>]"

definition two_pool_env :: env where
  "two_pool_env = stub_env\<lparr>api_base_pool := [Localhost 8000, Localhost 8001]\<rparr>"

text \<open>Probes: every server lists one model; no server answers.\<close>

definition live_probe :: "nat \<Rightarrow> string list option" where
  "live_probe port = Some [''vicuna'']"

definition dead_probe :: "nat \<Rightarrow> string list option" where
  "dead_probe port = None"

text \<open>Completion mode, with a live and with a dead backend.\<close>

definition completion_env :: env where
  "completion_env = stub_env\<lparr>chat := False\<rparr>"

definition dead_completion_env :: env where
  "dead_completion_env = completion_env\<lparr>backend_of := (\<lambda>u. dead_backend)\<rparr>"

definition one_sample :: "sample list" where
  "one_sample = [\<lparr>sample_id = JStr ''a'', conversations = terse_sample\<rparr>]"

text \<open>A backend that answers the first chat call of a conversation and cuts off the second.\<close>

definition cut_backend :: backend where
  "cut_backend =
     stub_backend\<lparr>chat_create :=
       (\<lambda>model_name ctx. if length ctx = 1 then ChatResponse ''stop'' '' 4 ''
                          else ChatResponse ''length'' ''fo'')\<rparr>"

text \<open>The stub environment with each of these backends behind its address.\<close>

definition cut_env :: env where
  "cut_env = stub_env\<lparr>backend_of := (\<lambda>u. cut_backend)\<rparr>"

definition failing_env :: env where
  "failing_env = stub_env\<lparr>backend_of := (\<lambda>u. failing_backend)\<rparr>"

definition once_env :: env where
  "once_env = stub_env\<lparr>backend_of := (\<lambda>u. once_backend)\<rparr>"

section \<open>Properties\<close>

subsection \<open>Auxiliary facts\<close>

lemma getitem_Inr: "getitem d k = Inr v \<longleftrightarrow> map_of d k = Some v"
  by (simp add: getitem_def split: option.splits)

lemma getitem_field: "map_of d k \<noteq> None \<Longrightarrow> getitem d k = Inr (field d k)"
  by (auto simp: getitem_def field_def)

lemma converted_after_turns:
  "length rs = length ms \<Longrightarrow>
   converted (after_turns model_name ms rs st) = converted st @ pairs_context ms rs"
  by (induction model_name ms rs st rule: after_turns.induct) (simp_all add: pairs_context_def)

lemma output_conv_after_turns:
  "length rs = length ms \<Longrightarrow>
   output_conv (after_turns model_name ms rs st) = output_conv st @ pairs_record ms rs"
  by (induction model_name ms rs st rule: after_turns.induct) (simp_all add: pairs_record_def)

lemma answered_length: "answered client model_name ctx ms rs \<Longrightarrow> length rs = length ms"
  by (induction client model_name ctx ms rs rule: answered.induct) simp_all

text \<open>The loop runs through answered turns and arrives at the state \<open>after_turns\<close>.\<close>

lemma chat_loop_answered:
  "answered client model_name (converted st) ms rs \<Longrightarrow>
   chat_loop client model_name (ms @ rest) st =
   chat_loop client model_name rest (after_turns model_name ms rs st)"
proof (induction ms arbitrary: rs st)
  case Nil
  then show ?case by simp
next
  case (Cons m ms)
  then obtain r rs' where rs: "rs = r # rs'" by (cases rs) auto
  from Cons.prems rs have frm: "getitem m ''from'' = Inr (JStr ''human'')"
    by (simp add: getitem_Inr)
  from Cons.prems rs have val: "getitem m ''value'' = Inr (field m ''value'')"
    by (simp add: getitem_field)
  from Cons.prems rs have
    rest: "answered client model_name
             (converted st @ [user_message (field m ''value''), assistant_message (strip r)]) ms rs'"
    by simp
  from Cons.prems rs obtain fr where
    resp: "chat_create client model_name (converted st @ [user_message (field m ''value'')]) = ChatResponse fr r"
    and fr: "fr \<noteq> ''length''"
    by (auto split: chat_result.splits)
  let ?st = "\<lparr>converted = converted st @ [user_message (field m ''value''), assistant_message (strip r)],
           output_conv = output_conv st @ [m, gpt_turn (strip r)],
           calls = calls st @ [ChatCreate model_name (converted st @ [user_message (field m ''value'')])]\<rparr>"
  have step: "chat_loop client model_name ((m # ms) @ rest) st = chat_loop client model_name (ms @ rest) ?st"
    using frm val resp fr by (cases st) (simp add: Let_def)
  have "answered client model_name (converted ?st) ms rs'" using rest by simp
  from Cons.IH[OF this] step rs show ?case by simp
qed

lemma submitted_eq:
  "submitted data start = map (\<lambda>j. (conversations (data ! j), j)) [start..<length data]"
  by (rule nth_equalityI) (simp_all add: submitted_def nth_enumerate_eq add.commute)

subsection \<open>Resume planning and backend assignment\<close>

text \<open>Lines 177 to 179 leave an existing file as it is.\<close>

lemma ensure_file_path_keeps:
  assumes "ensure_file_path fs = Inr fs1"
    and "files fs p = Some content" and "\<not> is_dir fs p"
  shows "files fs1 p = Some content \<and> \<not> is_dir fs1 p"
proof (cases "path_exists fs file_path")
  case True
  with assms show ?thesis by (simp add: ensure_file_path_def)
next
  case False
  with assms(2) have ne: "p \<noteq> file_path" by (auto simp: path_exists_def)
  from False assms(1) obtain fs' where
    mk: "mkdir_parents fs (butlast file_path) = Inr fs'" and tc: "touch fs' file_path = Inr fs1"
    by (auto simp: ensure_file_path_def split: sum.splits)
  from mk assms(2) have anc: "p \<notin> set (ancestors (butlast file_path))"
    by (auto simp: mkdir_parents_def split: if_splits)
  from mk have fs': "fs' = fs\<lparr>dirs := dirs fs \<union> set (ancestors (butlast file_path))\<rparr>"
    by (auto simp: mkdir_parents_def split: if_splits)
  from tc have "fs1 = fs' \<or> fs1 = fs'\<lparr>files := (files fs')(file_path \<mapsto> [])\<rparr>"
    by (auto simp: touch_def split: if_splits)
  with fs' ne anc assms(2,3) show ?thesis
    by (auto simp: is_dir_def)
qed

text \<open>
  Claim C1. When the output path is an existing file, the starting offset is the number of
  lines of that file, the submitted calls are exactly those for the samples from that
  offset to the end of the input, each with its absolute index, and nothing is submitted
  when the file already has as many lines as there are samples. The whole run, when its
  main thread raises nothing, consists of the units for these calls.
\<close>

theorem resume_plan:
  assumes "files fs (output_path e) = Some content" and "\<not> is_dir fs (output_path e)"
  shows "start_idx fs (output_path e) = Inr (count_lines content) \<and>
         submitted data (count_lines content) =
           map (\<lambda>j. (conversations (data ! j), j)) [count_lines content..<length data] \<and>
         (length data \<le> count_lines content \<longrightarrow> submitted data (count_lines content) = []) \<and>
         main probe e data fs =
           (case ensure_file_path fs of
              Inl err \<Rightarrow> \<lparr>exit_code = 1, units = [], final_fs = fs\<rparr>
            | Inr fs1 \<Rightarrow>
                (let (rs, fs2) = run_units (e\<lparr>api_base_pool := probe_pool probe\<rparr>)
                                   (submitted data (count_lines content)) fs1
                 in \<lparr>exit_code = 0, units = rs, final_fs = fs2\<rparr>))"
proof -
  from assms have a: "start_idx fs (output_path e) = Inr (count_lines content)"
    by (simp add: start_idx_def path_exists_def open_read_def)
  have b: "start_idx fs1 (output_path e) = Inr (count_lines content)"
    if "ensure_file_path fs = Inr fs1" for fs1
    using ensure_file_path_keeps[OF that assms]
    by (simp add: start_idx_def path_exists_def open_read_def)
  have "main probe e data fs =
           (case ensure_file_path fs of
              Inl err \<Rightarrow> \<lparr>exit_code = 1, units = [], final_fs = fs\<rparr>
            | Inr fs1 \<Rightarrow>
                (let (rs, fs2) = run_units (e\<lparr>api_base_pool := probe_pool probe\<rparr>)
                                   (submitted data (count_lines content)) fs1
                 in \<lparr>exit_code = 0, units = rs, final_fs = fs2\<rparr>))"
    by (cases "ensure_file_path fs") (simp_all add: main_def b)
  with a show ?thesis by (simp add: submitted_eq)
qed

theorem resume_plan_witness:
  "files fs_two_lines (output_path stub_env) = Some (''{}'' @ [CHR 0x0A] @ ''{}'' @ [CHR 0x0A]) \<and>
   \<not> is_dir fs_two_lines (output_path stub_env) \<and>
   start_idx fs_two_lines (output_path stub_env) = Inr 2 \<and>
   submitted three_samples 2 = [(misordered_sample, 2)] \<and>
   submitted (take 2 three_samples) 2 = []"
proof -
  let ?c = "''{}'' @ [CHR 0x0A] @ ''{}'' @ [CHR 0x0A]"
  have f: "files fs_two_lines (output_path stub_env) = Some ?c"
    by (simp add: fs_two_lines_def stub_env_def)
  have d: "\<not> is_dir fs_two_lines (output_path stub_env)"
    by (simp add: is_dir_def fs_two_lines_def out_path_def stub_env_def)
  have c: "count_lines ?c = 2" by simp
  have m: "map (\<lambda>j. (conversations (three_samples ! j), j)) [2..<length three_samples]
           = [(misordered_sample, 2)]"
    by (simp add: three_samples_def upt_rec)
  have l: "length (take 2 three_samples) \<le> 2" by simp
  from resume_plan [OF f d, of three_samples]
  have "start_idx fs_two_lines (output_path stub_env) = Inr 2 \<and>
        submitted three_samples 2 = [(misordered_sample, 2)]"
    unfolding c m by blast
  moreover from resume_plan [OF f d, of "take 2 three_samples"] l
  have "submitted (take 2 three_samples) 2 = []"
    unfolding c by blast
  ultimately show ?thesis using f d by blast
qed

lemma chat_loop_calls:
  "\<exists>cs. calls (snd (chat_loop client model_name ms st)) = calls st @ cs"
proof (induction ms arbitrary: st)
  case Nil
  then show ?case by simp
next
  case (Cons m ms)
  show ?case
  proof (cases "getitem m ''from''")
    case (Inl e) then show ?thesis by simp
  next
    case (Inr f)
    show ?thesis
    proof (cases "f = JStr ''human''")
      case False with Inr show ?thesis by simp
    next
      case True
      show ?thesis
      proof (cases "getitem m ''value''")
        case (Inl e) with Inr True show ?thesis by simp
      next
        case v: (Inr v)
        let ?conv = "converted st @ [user_message v]"
        show ?thesis
        proof (cases "chat_create client model_name ?conv")
          case ChatError
          with Inr True v show ?thesis by (simp add: Let_def)
        next
          case (ChatResponse fr content)
          show ?thesis
          proof (cases "fr = ''length''")
            case True
            with Inr \<open>f = JStr ''human''\<close> v ChatResponse show ?thesis by (simp add: Let_def)
          next
            case False
            let ?st = "st\<lparr>converted := ?conv, calls := calls st @ [ChatCreate model_name ?conv],
                          output_conv := output_conv st @ [m, gpt_turn (strip content)],
                          converted := ?conv @ [assistant_message (strip content)]\<rparr>"
            from Cons.IH[of ?st] obtain cs where
              "calls (snd (chat_loop client model_name ms ?st)) = calls ?st @ cs" by blast
            with Inr \<open>f = JStr ''human''\<close> v ChatResponse False show ?thesis
              by (simp add: Let_def)
          qed
        qed
      qed
    qed
  qed
qed

lemma chat_mode_events:
  "\<exists>cs. events (chat_mode e client model_name messages ev fs) = ev @ cs"
proof (cases "leading_system messages")
  case (Inl err)
  then show ?thesis by (simp add: chat_mode_def)
next
  case (Inr t)
  obtain conv0 out0 rest where t: "t = (conv0, out0, rest)" by (cases t) auto
  let ?st0 = "\<lparr>converted = conv0, output_conv = out0, calls = ev\<rparr>"
  obtain x st where r: "chat_loop client model_name (every_other rest) ?st0 = (x, st)"
    by (cases "chat_loop client model_name (every_other rest) ?st0") auto
  from chat_loop_calls[of client model_name "every_other rest" ?st0] r
  obtain cs where "calls st = ev @ cs" by auto
  with Inr t r show ?thesis
    by (cases x) (auto simp: chat_mode_def split: sum.splits)
qed

lemma completion_mode_events:
  "\<exists>cs. events (completion_mode e client model_name messages ev fs) = ev @ cs"
  by (auto simp: completion_mode_def Let_def split: sum.splits text_result.splits)

lemma generate_data_first_event:
  assumes "api_base_pool e \<noteq> []"
  shows "take 1 (events (generate_data e messages idx fs)) = [ClientNew (assigned e idx)]"
proof -
  let ?u = "assigned e idx"
  let ?ev = "[ClientNew ?u, ModelsList]"
  from assms have sel: "select_base_url (api_base_pool e) idx = Inr ?u"
    by (simp add: select_base_url_def assigned_def)
  have c1: "take (Suc 0) (events (chat_mode e (backend_of e ?u) mn messages ?ev fs)) = [ClientNew ?u]" for mn
    using chat_mode_events[of e "backend_of e ?u" mn messages ?ev fs] by auto
  have c2: "take (Suc 0) (events (completion_mode e (backend_of e ?u) mn messages ?ev fs)) = [ClientNew ?u]" for mn
    using completion_mode_events[of e "backend_of e ?u" mn messages ?ev fs] by auto
  show ?thesis
    by (simp add: generate_data_def sel Let_def c1 c2 split: option.splits list.splits)
qed

text \<open>
  Claim C2. With a non-empty pool, the \<open>j\<close>-th submitted call carries the absolute index
  \<open>start + j\<close>, and the unit with that index builds its client on the pool entry at
  position \<open>(start + j) mod length pool\<close> as its first action, whatever the file system
  or the other units did before: the address is a function of the index and the pool alone.
\<close>

theorem backend_assignment:
  assumes "api_base_pool e \<noteq> []" and "j < length data - start"
  shows "submitted data start ! j = (conversations (data ! (start + j)), start + j) \<and>
         select_base_url (api_base_pool e) (start + j) =
           Inr (api_base_pool e ! ((start + j) mod length (api_base_pool e))) \<and>
         take 1 (events (generate_data e (conversations (data ! (start + j))) (start + j) fs)) =
           [ClientNew (api_base_pool e ! ((start + j) mod length (api_base_pool e)))]"
proof -
  from assms(2) have "submitted data start ! j = (conversations (data ! (start + j)), start + j)"
    by (simp add: submitted_eq)
  moreover from assms(1) have "select_base_url (api_base_pool e) (start + j) =
           Inr (api_base_pool e ! ((start + j) mod length (api_base_pool e)))"
    by (simp add: select_base_url_def)
  moreover have "take 1 (events (generate_data e (conversations (data ! (start + j))) (start + j) fs)) =
           [ClientNew (api_base_pool e ! ((start + j) mod length (api_base_pool e)))]"
    using generate_data_first_event[OF assms(1)] by (simp add: assigned_def)
  ultimately show ?thesis by blast
qed

theorem backend_assignment_witness:
  "api_base_pool two_pool_env \<noteq> [] \<and> (0::nat) < length three_samples - 1 \<and>
   submitted three_samples 1 ! 0 = (short_sample, 1) \<and>
   select_base_url (api_base_pool two_pool_env) 1 = Inr (Localhost 8001) \<and>
   take 1 (events (generate_data two_pool_env short_sample 1 fs_ready)) = [ClientNew (Localhost 8001)]"
proof -
  have p: "api_base_pool two_pool_env = [Localhost 8000, Localhost 8001]"
    by (simp add: two_pool_env_def stub_env_def)
  have ne: "api_base_pool two_pool_env \<noteq> []" by (simp add: p)
  have j: "(0::nat) < length three_samples - 1" by (simp add: three_samples_def)
  have d: "conversations (three_samples ! (1 + 0)) = short_sample" by (simp add: three_samples_def)
  have i: "[Localhost 8000, Localhost 8001] ! ((1 + 0) mod length [Localhost 8000, Localhost 8001]) = Localhost 8001"
    by simp
  from backend_assignment [OF ne j, of fs_ready] show ?thesis
    unfolding p d i using j by simp
qed

subsection \<open>An empty pool\<close>

lemma run_units_empty_pool:
  "api_base_pool e = [] \<Longrightarrow>
   run_units e ts fs =
     (map (\<lambda>t. \<lparr>outcome = Raised ZeroDivisionError, events = [], fs_after = fs\<rparr>) ts, fs)"
  by (induction ts) (auto simp: generate_data_def select_base_url_def Let_def)

lemma file_path_ancestors:
  "file_path \<notin> set (ancestors (butlast file_path))"
  "butlast file_path \<in> set (ancestors (butlast file_path))"
  by (simp_all add: file_path_def)

lemma ensure_file_path_fresh:
  assumes "files fs = Map.empty" and "file_path \<notin> dirs fs"
  shows "ensure_file_path fs =
           Inr \<lparr>dirs = dirs fs \<union> set (ancestors (butlast file_path)),
                files = [file_path \<mapsto> []]\<rparr>"
proof -
  have ne: "file_path \<noteq> []" "butlast file_path \<noteq> []" by (simp_all add: file_path_def)
  from assms ne have a: "\<not> path_exists fs file_path"
    by (simp add: path_exists_def is_dir_def)
  from assms have b: "mkdir_parents fs (butlast file_path) =
      Inr (fs\<lparr>dirs := dirs fs \<union> set (ancestors (butlast file_path))\<rparr>)"
    by (simp add: mkdir_parents_def)
  from assms ne have c: "touch (fs\<lparr>dirs := dirs fs \<union> set (ancestors (butlast file_path))\<rparr>) file_path
      = Inr \<lparr>dirs = dirs fs \<union> set (ancestors (butlast file_path)), files = [file_path \<mapsto> []]\<rparr>"
    by (cases fs) (simp add: touch_def path_exists_def is_dir_def file_path_ancestors)
  show ?thesis by (simp add: ensure_file_path_def a b c)
qed

text \<open>
  Claim C3, as the script behaves. When probing leaves the pool empty and the main thread
  has prepared the path of line 176 and read the resume offset, the script does not stop:
  it submits every sample from the offset on, each unit raises ZeroDivisionError at the
  selection of its address before it builds a client or writes anything, and the process
  ends with exit code 0.
\<close>

theorem empty_pool_run:
  assumes "probe_pool probe = []"
    and "ensure_file_path fs = Inr fs1"
    and "start_idx fs1 (output_path e0) = Inr start"
  shows "main probe e0 data fs =
           \<lparr>exit_code = 0,
            units = map (\<lambda>t. \<lparr>outcome = Raised ZeroDivisionError, events = [], fs_after = fs1\<rparr>)
                      (submitted data start),
            final_fs = fs1\<rparr>"
  using assms by (simp add: main_def run_units_empty_pool)

text \<open>
  With no server answering, the run over three samples ends with exit code 0 after all
  three units were submitted and failed: no fail-fast exit.
\<close>

theorem empty_pool_run_counterexample:
  "probe_pool dead_probe = [] \<and>
   exit_code (main dead_probe stub_env three_samples fs_ready) = 0 \<and>
   map outcome (units (main dead_probe stub_env three_samples fs_ready))
     = [Raised ZeroDivisionError, Raised ZeroDivisionError, Raised ZeroDivisionError]"
proof -
  have p: "probe_pool dead_probe = []"
    by (simp add: probe_pool_def dead_probe_def)
  let ?fs1 = "\<lparr>dirs = dirs fs_ready \<union> set (ancestors (butlast file_path)),
          files = [file_path \<mapsto> []]\<rparr>"
  have e: "ensure_file_path fs_ready = Inr ?fs1"
    by (rule ensure_file_path_fresh) (simp_all add: fs_ready_def file_path_def)
  have s: "start_idx ?fs1 (output_path stub_env) = Inr 0"
    by (simp add: start_idx_def path_exists_def is_dir_def stub_env_def out_path_def file_path_def
        fs_ready_def)
  have l: "length (submitted three_samples 0) = 3"
    by (simp add: submitted_def three_samples_def)
  have m: "main dead_probe stub_env three_samples fs_ready =
           \<lparr>exit_code = 0,
            units = map (\<lambda>t. \<lparr>outcome = Raised ZeroDivisionError, events = [], fs_after = ?fs1\<rparr>)
                      (submitted three_samples 0),
            final_fs = ?fs1\<rparr>"
    by (simp add: main_def e s p run_units_empty_pool)
  have o: "map outcome (units (main dead_probe stub_env three_samples fs_ready))
           = replicate 3 (Raised ZeroDivisionError)"
    unfolding m by (simp add: map_replicate_const[symmetric] l[symmetric] comp_def)
  show ?thesis using p m o by (simp add: numeral_3_eq_3)
qed

theorem empty_pool_run_witness:
  "probe_pool dead_probe = [] \<and>
   ensure_file_path fs_ready =
     Inr \<lparr>dirs = dirs fs_ready \<union> set (ancestors (butlast file_path)), files = [file_path \<mapsto> []]\<rparr> \<and>
   start_idx \<lparr>dirs = dirs fs_ready \<union> set (ancestors (butlast file_path)), files = [file_path \<mapsto> []]\<rparr>
     (output_path stub_env) = Inr 0 \<and>
   main dead_probe stub_env three_samples fs_ready =
     \<lparr>exit_code = 0,
      units = map (\<lambda>t. \<lparr>outcome = Raised ZeroDivisionError, events = [],
                          fs_after = \<lparr>dirs = dirs fs_ready \<union> set (ancestors (butlast file_path)),
                                      files = [file_path \<mapsto> []]\<rparr>\<rparr>)
                (submitted three_samples 0),
      final_fs = \<lparr>dirs = dirs fs_ready \<union> set (ancestors (butlast file_path)),
                  files = [file_path \<mapsto> []]\<rparr>\<rparr>"
proof -
  let ?fs1 = "\<lparr>dirs = dirs fs_ready \<union> set (ancestors (butlast file_path)),
          files = [file_path \<mapsto> []]\<rparr>"
  have p: "probe_pool dead_probe = []"
    by (simp add: probe_pool_def dead_probe_def)
  have e: "ensure_file_path fs_ready = Inr ?fs1"
    by (rule ensure_file_path_fresh) (simp_all add: fs_ready_def file_path_def)
  have s: "start_idx ?fs1 (output_path stub_env) = Inr 0"
    by (simp add: start_idx_def path_exists_def is_dir_def stub_env_def out_path_def file_path_def
        fs_ready_def)
  from empty_pool_run [OF p e s, of three_samples] p e s show ?thesis by blast
qed

subsection \<open>Facts about one unit\<close>

lemma open_append_writable:
  "writable fs p \<Longrightarrow> open_append fs p s = Inr (append_line fs p s)"
  by (auto simp: writable_def open_append_def append_line_def split: option.splits)

lemma generate_data_listed:
  assumes "api_base_pool e \<noteq> []"
    and "models_list (backend_of e (assigned e idx)) = Some (model_name # others)"
  shows "generate_data e messages idx fs =
           (if chat e
            then chat_mode e (backend_of e (assigned e idx)) model_name messages
                   [ClientNew (assigned e idx), ModelsList] fs
            else completion_mode e (backend_of e (assigned e idx)) model_name messages
                   [ClientNew (assigned e idx), ModelsList] fs)"
  using assms by (simp add: generate_data_def select_base_url_def assigned_def Let_def)

lemma generate_data_not_listed:
  assumes "api_base_pool e \<noteq> []"
    and "models_list (backend_of e (assigned e idx)) = None \<or>
         models_list (backend_of e (assigned e idx)) = Some []"
  shows "generate_data e messages idx fs =
           \<lparr>outcome = Returned, events = [ClientNew (assigned e idx), ModelsList], fs_after = fs\<rparr>"
  using assms by (auto simp: generate_data_def select_base_url_def assigned_def Let_def)

lemma terse_line:
  \<open>dumps_conversations
      [[(''from'', JStr ''system''), (''text'', JStr ''be terse'')],
       [(''from'', JStr ''human''), (''value'', JStr ''2+2?'')],
       gpt_turn ''4'']
    = ''{"conversations": [{"from": "system", "text": "be terse"}, {"from": "human", "value": "2+2?"}, {"from": "gpt", "value": "4"}]}''\<close>
  by (simp add: dumps_conversations_def dumps_list_def dumps_dict_def dumps_str_def
      escape_char_def gpt_turn_def)

lemma strip_4: "strip ''4'' = ''4''"
  by (simp add: strip_def isspace_def)

subsection \<open>The end-to-end example\<close>

text \<open>
  Claim C9. In chat mode, for the sample of a system turn "be terse" (its content under the
  key \<^verbatim>\<open>text\<close>, where line 103 reads it), a human turn "2+2?" and an assistant turn
  with a null value, a backend that lists a model and answers the call on that context
  with the text 4 and the finish reason stop makes the unit append exactly the line
  \<^verbatim>\<open>{"conversations": [system turn, human turn, {"from": "gpt", "value": "4"}]}\<close>
  to a writable output path.
\<close>

theorem terse_example:
  assumes "api_base_pool e \<noteq> []" and "chat e"
    and "models_list (backend_of e (assigned e idx)) = Some (model_name # others)"
    and "chat_create (backend_of e (assigned e idx)) model_name
           [system_message (JStr ''be terse''), user_message (JStr ''2+2?'')]
         = ChatResponse ''stop'' ''4''"
    and "writable fs (output_path e)"
  shows \<open>outcome (generate_data e terse_sample idx fs) = Returned \<and>
         fs_after (generate_data e terse_sample idx fs) =
           append_line fs (output_path e)
             (''{"conversations": [{"from": "system", "text": "be terse"}, {"from": "human", "value": "2+2?"}, {"from": "gpt", "value": "4"}]}''
              @ [CHR 0x0A])\<close>
proof -
  let ?client = "backend_of e (assigned e idx)"
  let ?ev = "[ClientNew (assigned e idx), ModelsList]"
  have ls: "leading_system terse_sample =
              Inr ([system_message (JStr ''be terse'')],
                   [[(''from'', JStr ''system''), (''text'', JStr ''be terse'')]],
                   [[(''from'', JStr ''human''), (''value'', JStr ''2+2?'')],
                    [(''from'', JStr ''gpt''), (''value'', JNull)]])"
    by (simp add: terse_sample_def getitem_def)
  have lp: "chat_loop ?client model_name
              (every_other [[(''from'', JStr ''human''), (''value'', JStr ''2+2?'')],
                    [(''from'', JStr ''gpt''), (''value'', JNull)]])
              \<lparr>converted = [system_message (JStr ''be terse'')],
               output_conv = [[(''from'', JStr ''system''), (''text'', JStr ''be terse'')]],
               calls = ?ev\<rparr>
            = (Ended,
               \<lparr>converted = [system_message (JStr ''be terse''), user_message (JStr ''2+2?''),
                             assistant_message ''4''],
                output_conv = [[(''from'', JStr ''system''), (''text'', JStr ''be terse'')],
                               [(''from'', JStr ''human''), (''value'', JStr ''2+2?'')],
                               gpt_turn ''4''],
                calls = ?ev @ [ChatCreate model_name
                                 [system_message (JStr ''be terse''), user_message (JStr ''2+2?'')]]\<rparr>)"
    using assms(4) by (simp add: getitem_def Let_def strip_4)
  have "generate_data e terse_sample idx fs = chat_mode e ?client model_name terse_sample ?ev fs"
    using generate_data_listed[OF assms(1,3)] assms(2) by simp
  also have "\<dots> = \<lparr>outcome = Returned,
                    events = ?ev @ [ChatCreate model_name
                                 [system_message (JStr ''be terse''), user_message (JStr ''2+2?'')]],
                    fs_after = append_line fs (output_path e)
                      (dumps_conversations [[(''from'', JStr ''system''), (''text'', JStr ''be terse'')],
                               [(''from'', JStr ''human''), (''value'', JStr ''2+2?'')],
                               gpt_turn ''4''] @ [CHR 0x0A])\<rparr>"
    by (simp add: chat_mode_def ls lp open_append_writable[OF assms(5)]
        del: chat_loop.simps every_other.simps)
  finally show ?thesis by (simp add: terse_line)
qed

lemma stub_env_simps:
  "api_base_pool stub_env = [Localhost 8000]" "chat stub_env" "output_path stub_env = out_path"
  "backend_of stub_env u = stub_backend" "assigned stub_env idx = Localhost 8000"
  by (simp_all add: stub_env_def assigned_def)

lemma stub_backend_simps:
  "models_list stub_backend = Some [''vicuna'']"
  "chat_create stub_backend model_name ctx = ChatResponse ''stop'' ''4''"
  by (simp_all add: stub_backend_def)

lemma writable_fs_ready: "writable fs_ready out_path"
  by (simp add: writable_def is_dir_def fs_ready_def out_path_def)

theorem terse_example_witness:
  \<open>api_base_pool stub_env \<noteq> [] \<and> chat stub_env \<and>
   models_list (backend_of stub_env (assigned stub_env 0)) = Some [''vicuna''] \<and>
   chat_create (backend_of stub_env (assigned stub_env 0)) ''vicuna''
      [system_message (JStr ''be terse''), user_message (JStr ''2+2?'')] = ChatResponse ''stop'' ''4'' \<and>
   writable fs_ready (output_path stub_env) \<and>
   outcome (generate_data stub_env terse_sample 0 fs_ready) = Returned \<and>
   files (fs_after (generate_data stub_env terse_sample 0 fs_ready)) out_path =
     Some (''{"conversations": [{"from": "system", "text": "be terse"}, {"from": "human", "value": "2+2?"}, {"from": "gpt", "value": "4"}]}''
           @ [CHR 0x0A])\<close>
proof -
  have a: "api_base_pool stub_env \<noteq> []" by (simp add: stub_env_simps)
  have b: "chat stub_env" by (simp add: stub_env_simps)
  have c: "models_list (backend_of stub_env (assigned stub_env 0)) = Some (''vicuna'' # [])"
    by (simp add: stub_env_simps stub_backend_simps)
  have d: "chat_create (backend_of stub_env (assigned stub_env 0)) ''vicuna''
      [system_message (JStr ''be terse''), user_message (JStr ''2+2?'')] = ChatResponse ''stop'' ''4''"
    by (simp add: stub_env_simps stub_backend_simps)
  have w: "writable fs_ready (output_path stub_env)"
    by (simp add: stub_env_simps writable_fs_ready)
  have f: "files (append_line fs_ready out_path s) out_path = Some s" for s
    by (simp add: append_line_def fs_ready_def)
  from terse_example [OF a b c d w] a b c d w show ?thesis
    by (simp add: stub_env_simps f)
qed

subsection \<open>Release of the client\<close>

text \<open>
  Claim C8 does not hold of the script. Completion mode closes its client in the
  \<^verbatim>\<open>finally\<close> clause of lines 163 to 165; chat mode has no such call, and neither has
  the return of line 94 after a failed model listing. On the sample of the end-to-end
  example, chat mode returns after its chat call without closing the client, while
  completion mode on a live backend ends its events with the close, and a unit whose
  listing fails makes no close in either mode.
\<close>

theorem chat_mode_never_closes:
  "outcome (generate_data stub_env terse_sample 0 fs_ready) = Returned \<and>
   events (generate_data stub_env terse_sample 0 fs_ready) =
     [ClientNew (Localhost 8000), ModelsList,
      ChatCreate ''vicuna'' [system_message (JStr ''be terse''), user_message (JStr ''2+2?'')]] \<and>
   ClientClose \<notin> set (events (generate_data stub_env terse_sample 0 fs_ready)) \<and>
   events (generate_data completion_env short_sample 0 fs_ready) =
     [ClientNew (Localhost 8000), ModelsList,
      CompletionsCreate ''vicuna'' ''USER: hi ASSISTANT:'', ClientClose] \<and>
   events (generate_data dead_completion_env short_sample 0 fs_ready) =
     [ClientNew (Localhost 8000), ModelsList]"
proof -
  have e: "events (generate_data stub_env terse_sample 0 fs_ready) =
     [ClientNew (Localhost 8000), ModelsList,
      ChatCreate ''vicuna'' [system_message (JStr ''be terse''), user_message (JStr ''2+2?'')]]"
    by (simp add: generate_data_def select_base_url_def stub_env_def stub_backend_def Let_def
        chat_mode_def terse_sample_def getitem_def open_append_def is_dir_def fs_ready_def
        out_path_def)
  have o: "outcome (generate_data stub_env terse_sample 0 fs_ready) = Returned"
    by (simp add: generate_data_def select_base_url_def stub_env_def stub_backend_def Let_def
        chat_mode_def terse_sample_def getitem_def open_append_def is_dir_def fs_ready_def
        out_path_def)
  have c: "events (generate_data completion_env short_sample 0 fs_ready) =
     [ClientNew (Localhost 8000), ModelsList,
      CompletionsCreate ''vicuna'' ''USER: hi ASSISTANT:'', ClientClose]"
    by (simp add: generate_data_def select_base_url_def completion_env_def stub_env_def
        stub_backend_def Let_def completion_mode_def build_prompt_def short_sample_def getitem_def
        open_append_def is_dir_def fs_ready_def out_path_def)
  have d: "events (generate_data dead_completion_env short_sample 0 fs_ready) =
     [ClientNew (Localhost 8000), ModelsList]"
    by (simp add: generate_data_def select_base_url_def dead_completion_env_def completion_env_def
        stub_env_def dead_backend_def stub_backend_def Let_def)
  show ?thesis by (simp add: e o c d)
qed

subsection \<open>Preparation of the output path\<close>

text \<open>
  Claim C7 does not hold of the script. Lines 176 to 179 create the parent directories and
  the file of the path written into the script, not of the configured output path. On a
  file system without the directory of the output path the run starts at offset 0 and
  exits with code 0, but the output path and its directory are never created: the unit
  that would write the line of the end-to-end example raises FileNotFoundError in
  \<^verbatim>\<open>open\<close>, and only the path of line 176 exists afterwards.
\<close>

theorem output_path_not_prepared:
  "\<not> path_exists fs_bare out_path \<and>
   exit_code (main live_probe stub_env one_sample fs_bare) = 0 \<and>
   map outcome (units (main live_probe stub_env one_sample fs_bare)) = [Raised FileNotFoundError] \<and>
   \<not> is_dir (final_fs (main live_probe stub_env one_sample fs_bare)) (butlast out_path) \<and>
   \<not> path_exists (final_fs (main live_probe stub_env one_sample fs_bare)) out_path \<and>
   path_exists (final_fs (main live_probe stub_env one_sample fs_bare)) file_path"
proof -
  let ?fs1 = "\<lparr>dirs = dirs fs_bare \<union> set (ancestors (butlast file_path)),
          files = [file_path \<mapsto> []]\<rparr>"
  let ?e = "stub_env\<lparr>api_base_pool := probe_pool live_probe\<rparr>"
  have n: "\<not> path_exists fs_bare out_path"
    by (simp add: path_exists_def is_dir_def fs_bare_def out_path_def)
  have e: "ensure_file_path fs_bare = Inr ?fs1"
    by (rule ensure_file_path_fresh) (simp_all add: fs_bare_def)
  have nd: "\<not> is_dir ?fs1 (butlast out_path)"
    by (simp add: is_dir_def fs_bare_def out_path_def file_path_def)
  have ne: "\<not> path_exists ?fs1 out_path"
    by (simp add: path_exists_def is_dir_def fs_bare_def out_path_def file_path_def)
  have ex: "path_exists ?fs1 file_path"
    by (simp add: path_exists_def)
  have s: "start_idx ?fs1 (output_path stub_env) = Inr 0"
    using ne by (simp add: start_idx_def stub_env_def)
  have t: "submitted one_sample 0 = [(terse_sample, 0)]"
    by (simp add: submitted_def one_sample_def)
  have a: "open_append ?fs1 out_path line = Inl FileNotFoundError" for line
    by (simp add: open_append_def is_dir_def out_path_def fs_bare_def file_path_def)
  have u: "outcome (generate_data ?e terse_sample 0 ?fs1) = Raised FileNotFoundError \<and>
           fs_after (generate_data ?e terse_sample 0 ?fs1) = ?fs1"
    by (simp add: generate_data_def select_base_url_def probe_pool_def live_probe_def
        stub_env_def stub_backend_def Let_def chat_mode_def terse_sample_def getitem_def a)
  have m: "main live_probe stub_env one_sample fs_bare =
           \<lparr>exit_code = 0, units = [generate_data ?e terse_sample 0 ?fs1], final_fs = ?fs1\<rparr>"
    using u by (simp add: main_def e s t Let_def)
  show ?thesis unfolding m using n nd ne ex u by simp
qed

subsection \<open>Empty samples\<close>

text \<open>
  Claim C10, as the script behaves. With a non-empty pool, a unit on a sample without
  turns builds its client and lists the models, makes no chat or completion call and
  writes nothing. In chat mode it returns without error. In completion mode it raises
  IndexError at \<^verbatim>\<open>messages[0]\<close> when the listing gave a model, and returns without
  error when the listing failed.
\<close>

theorem empty_sample:
  assumes "api_base_pool e \<noteq> []"
  shows "generate_data e [] idx fs =
           \<lparr>outcome = (case models_list (backend_of e (assigned e idx)) of
                         Some (model_name # others) \<Rightarrow> if chat e then Returned else Raised IndexError
                       | _ \<Rightarrow> Returned),
            events = [ClientNew (assigned e idx), ModelsList],
            fs_after = fs\<rparr>"
proof (cases "models_list (backend_of e (assigned e idx))")
  case None
  with generate_data_not_listed[OF assms, of idx] show ?thesis by simp
next
  case (Some ms)
  show ?thesis
  proof (cases ms)
    case Nil
    with Some generate_data_not_listed[OF assms, of idx] show ?thesis by simp
  next
    case (Cons model_name others)
    with Some generate_data_listed[OF assms, of idx model_name others "[]" fs] show ?thesis
      by (simp add: chat_mode_def completion_mode_def build_prompt_def)
  qed
qed

theorem empty_sample_witness:
  "api_base_pool completion_env \<noteq> [] \<and>
   generate_data completion_env [] 0 fs_ready =
     \<lparr>outcome = Raised IndexError, events = [ClientNew (Localhost 8000), ModelsList],
      fs_after = fs_ready\<rparr> \<and>
   api_base_pool stub_env \<noteq> [] \<and>
   generate_data stub_env [] 0 fs_ready =
     \<lparr>outcome = Returned, events = [ClientNew (Localhost 8000), ModelsList],
      fs_after = fs_ready\<rparr>"
proof -
  have a: "api_base_pool completion_env \<noteq> []" by (simp add: completion_env_def stub_env_def)
  have b: "api_base_pool stub_env \<noteq> []" by (simp add: stub_env_def)
  from empty_sample [OF a, of 0 fs_ready] empty_sample [OF b, of 0 fs_ready] a b
  show ?thesis
    by (simp add: completion_env_def stub_env_def stub_backend_def assigned_def)
qed

text \<open>
  In completion mode with a backend whose listing raises, the unit on the empty sample
  returns without any error; and with a live backend the listing call is made before the
  out-of-bounds access.
\<close>

theorem empty_sample_counterexample:
  "\<not> chat dead_completion_env \<and>
   outcome (generate_data dead_completion_env [] 0 fs_ready) = Returned \<and>
   outcome (generate_data dead_completion_env [] 0 fs_ready) \<noteq> Raised IndexError \<and>
   ModelsList \<in> set (events (generate_data completion_env [] 0 fs_ready))"
  by (simp add: generate_data_def select_base_url_def dead_completion_env_def completion_env_def
      stub_env_def dead_backend_def stub_backend_def Let_def completion_mode_def build_prompt_def)

subsection \<open>The chat replay loop\<close>

lemma leading_system_eq:
  assumes "\<forall>s \<in> set (system_turns messages). map_of s ''text'' \<noteq> None"
    and "messages \<noteq> [] \<longrightarrow> map_of (hd messages) ''from'' \<noteq> None"
  shows "leading_system messages =
           Inr (system_context messages, system_turns messages,
                drop (length (system_turns messages)) messages)"
proof (cases messages)
  case Nil
  then show ?thesis by (simp add: system_turns_def system_context_def)
next
  case (Cons m ms)
  with assms(2) obtain f where f: "map_of m ''from'' = Some f" by auto
  show ?thesis
  proof (cases "f = JStr ''system''")
    case True
    with f Cons assms(1) obtain t where t: "map_of m ''text'' = Some t"
      by (auto simp: system_turns_def)
    with True f Cons show ?thesis
      by (simp add: system_turns_def system_context_def getitem_def field_def)
  next
    case False
    with f Cons show ?thesis
      by (simp add: system_turns_def system_context_def getitem_def)
  qed
qed

lemma user_turns_first:
  assumes "user_turns messages = u # us" and "map_of u ''from'' \<noteq> None"
  shows "messages \<noteq> [] \<longrightarrow> map_of (hd messages) ''from'' \<noteq> None"
proof (cases messages)
  case Nil
  then show ?thesis by simp
next
  case (Cons m ms)
  show ?thesis
  proof (cases "map_of m ''from'' = Some (JStr ''system'')")
    case True
    with Cons show ?thesis by simp
  next
    case False
    with Cons have "user_turns messages = every_other (m # ms)"
      by (simp add: user_turns_def system_turns_def)
    with assms(1) have "u = m" by (cases ms) auto
    with assms(2) Cons show ?thesis by simp
  qed
qed

lemma first_turn_from:
  assumes "answered client model_name ctx done rs" and "map_of m ''from'' \<noteq> None"
  shows "map_of (hd (done @ m # later)) ''from'' \<noteq> None"
proof (cases "done")
  case Nil
  with assms(2) show ?thesis by simp
next
  case (Cons d ds)
  with assms(1) show ?thesis by (cases rs) auto
qed

lemma calls_after_turns:
  "length rs = length ms \<Longrightarrow>
   length (calls (after_turns model_name ms rs st)) = length (calls st) + length ms"
  by (induction model_name ms rs st rule: after_turns.induct) simp_all

text \<open>The state in which the loop stops at a turn whose call is cut off or raises.\<close>

lemma chat_loop_stops:
  assumes "map_of m ''from'' = Some (JStr ''human'')" and "map_of m ''value'' \<noteq> None"
    and "chat_create client model_name (converted st @ [user_message (field m ''value'')]) = ChatError \<or>
         (\<exists>t. chat_create client model_name (converted st @ [user_message (field m ''value'')])
                = ChatResponse ''length'' t)"
  shows "chat_loop client model_name (m # later) st =
           (Ended, \<lparr>converted = converted st @ [user_message (field m ''value'')],
                    output_conv = output_conv st,
                    calls = calls st @ [ChatCreate model_name
                                          (converted st @ [user_message (field m ''value'')])]\<rparr>)"
proof -
  from assms(1) have f: "getitem m ''from'' = Inr (JStr ''human'')" by (simp add: getitem_Inr)
  from assms(2) have v: "getitem m ''value'' = Inr (field m ''value'')" by (simp add: getitem_field)
  from assms(3) show ?thesis
    by (cases st) (auto simp: f v Let_def)
qed

lemma chat_mode_ended:
  assumes "leading_system messages = Inr (conv0, out0, rest)"
    and "chat_loop client model_name (every_other rest)
           \<lparr>converted = conv0, output_conv = out0, calls = ev\<rparr> = (Ended, st)"
    and "writable fs (output_path e)"
  shows "chat_mode e client model_name messages ev fs =
           \<lparr>outcome = Returned, events = calls st,
            fs_after = (if output_conv st = [] then fs
                        else append_line fs (output_path e)
                               (dumps_conversations (output_conv st) @ [CHR 0x0A]))\<rparr>"
  using assms(1,2) by (simp add: chat_mode_def open_append_writable[OF assms(3)])

text \<open>
  Claim C4. In chat mode, let the turns at the user positions be \<open>done @ m # later\<close>,
  where the calls for the \<open>k - 1\<close> turns \<open>done\<close> were answered by the texts \<open>rs\<close> and
  the call for the human turn \<open>m\<close> (user turn \<open>k\<close>) comes back cut off by the length
  limit. Then the loop ends at \<open>m\<close>: the context holds the system message, the completed
  pairs and the user message of \<open>m\<close>, but no entry for the cut-off text; the record holds
  exactly the leading system turn, if there is one, and the \<open>k - 1\<close> completed pairs; no
  call is made for a later turn; and the unit returns after appending that record as one
  line, when it is not empty, to the writable output path.
\<close>

theorem chat_truncation:
  assumes "api_base_pool e \<noteq> []" and "chat e"
    and "models_list (backend_of e (assigned e idx)) = Some (model_name # others)"
    and "\<forall>s \<in> set (system_turns messages). map_of s ''text'' \<noteq> None"
    and "user_turns messages = done @ m # later"
    and "answered (backend_of e (assigned e idx)) model_name (system_context messages) done rs"
    and "map_of m ''from'' = Some (JStr ''human'')" and "map_of m ''value'' \<noteq> None"
    and "chat_create (backend_of e (assigned e idx)) model_name
           (system_context messages @ pairs_context done rs @ [user_message (field m ''value'')])
         = ChatResponse ''length'' t"
    and "writable fs (output_path e)"
  shows "chat_loop (backend_of e (assigned e idx)) model_name (user_turns messages)
           \<lparr>converted = system_context messages, output_conv = system_turns messages,
            calls = [ClientNew (assigned e idx), ModelsList]\<rparr>
         = (Ended,
            \<lparr>converted = system_context messages @ pairs_context done rs
                          @ [user_message (field m ''value'')],
             output_conv = system_turns messages @ pairs_record done rs,
             calls = events (generate_data e messages idx fs)\<rparr>) \<and>
         length (events (generate_data e messages idx fs)) = 2 + length done + 1 \<and>
         outcome (generate_data e messages idx fs) = Returned \<and>
         fs_after (generate_data e messages idx fs) =
           (if system_turns messages @ pairs_record done rs = [] then fs
            else append_line fs (output_path e)
                   (dumps_conversations (system_turns messages @ pairs_record done rs)
                    @ [CHR 0x0A]))"
proof -
  let ?client = "backend_of e (assigned e idx)"
  let ?ev = "[ClientNew (assigned e idx), ModelsList]"
  let ?st0 = "\<lparr>converted = system_context messages, output_conv = system_turns messages,
              calls = ?ev\<rparr>"
  let ?st1 = "after_turns model_name done rs ?st0"
  let ?conv = "system_context messages @ pairs_context done rs @ [user_message (field m ''value'')]"
  let ?st2 = "\<lparr>converted = ?conv, output_conv = system_turns messages @ pairs_record done rs,
              calls = calls ?st1 @ [ChatCreate model_name ?conv]\<rparr>"
  from assms(6) have len: "length rs = length done" by (rule answered_length)
  have c1: "converted ?st1 = system_context messages @ pairs_context done rs"
    using converted_after_turns[OF len, of model_name ?st0] by simp
  have o1: "output_conv ?st1 = system_turns messages @ pairs_record done rs"
    using output_conv_after_turns[OF len, of model_name ?st0] by simp
  have l1: "length (calls ?st1) = 2 + length done"
    using calls_after_turns[OF len, of model_name ?st0] by simp
  from assms(6) have "answered ?client model_name (converted ?st0) done rs" by simp
  then have "chat_loop ?client model_name (done @ m # later) ?st0 =
             chat_loop ?client model_name (m # later) ?st1"
    by (rule chat_loop_answered)
  also have "\<dots> = (Ended, ?st2)"
    using chat_loop_stops[OF assms(7,8), of ?client model_name ?st1 later] assms(9)
    by (simp add: c1 o1)
  finally have loop: "chat_loop ?client model_name (user_turns messages) ?st0 = (Ended, ?st2)"
    by (simp add: assms(5))
  from assms(7) have "map_of m ''from'' \<noteq> None" by simp
  from first_turn_from[OF assms(6) this, of later] assms(5)
  have "map_of (hd (user_turns messages)) ''from'' \<noteq> None" by simp
  with assms(5) have "messages \<noteq> [] \<longrightarrow> map_of (hd messages) ''from'' \<noteq> None"
    using user_turns_first[of messages "hd (user_turns messages)" "tl (user_turns messages)"]
    by (cases "done") simp_all
  from leading_system_eq[OF assms(4) this]
  have ls: "leading_system messages =
           Inr (system_context messages, system_turns messages,
                drop (length (system_turns messages)) messages)" .
  from loop have loop': "chat_loop ?client model_name
       (every_other (drop (length (system_turns messages)) messages)) ?st0 = (Ended, ?st2)"
    by (simp add: user_turns_def)
  have "generate_data e messages idx fs = chat_mode e ?client model_name messages ?ev fs"
    using generate_data_listed[OF assms(1,3)] assms(2) by simp
  also note chat_mode_ended[OF ls loop' assms(10)]
  finally have g: "generate_data e messages idx fs =
      \<lparr>outcome = Returned, events = calls ?st2,
       fs_after = (if output_conv ?st2 = [] then fs
                   else append_line fs (output_path e)
                          (dumps_conversations (output_conv ?st2) @ [CHR 0x0A]))\<rparr>" .
  show ?thesis
    unfolding g loop using l1 by simp
qed

lemma misordered_turns:
  "system_turns misordered_sample = []"
  "system_context misordered_sample = []"
  "user_turns misordered_sample =
     [[(''from'', JStr ''human''), (''value'', JStr ''2+2?'')],
      [(''from'', JStr ''human''), (''value'', JStr ''3+3?'')],
      [(''from'', JStr ''gpt''), (''value'', JStr ''9'')]]"
  by (simp_all add: misordered_sample_def system_turns_def system_context_def user_turns_def)

lemma strip_examples: "strip '' 4 '' = ''4''" "strip ''4'' = ''4''"
  by (simp_all add: strip_def isspace_def)

lemma first_pair_line:
  \<open>dumps_conversations
      [[(''from'', JStr ''human''), (''value'', JStr ''2+2?'')], gpt_turn ''4'']
    = ''{"conversations": [{"from": "human", "value": "2+2?"}, {"from": "gpt", "value": "4"}]}''\<close>
  by (simp add: dumps_conversations_def dumps_list_def dumps_dict_def dumps_str_def
      escape_char_def gpt_turn_def)

lemma files_append_fs_ready: "files (append_line fs_ready out_path s) out_path = Some s"
  by (simp add: append_line_def fs_ready_def)

theorem chat_truncation_witness:
  \<open>api_base_pool cut_env \<noteq> [] \<and> chat cut_env \<and>
   models_list (backend_of cut_env (assigned cut_env 0)) = Some [''vicuna''] \<and>
   system_turns misordered_sample = [] \<and>
   user_turns misordered_sample =
     [[(''from'', JStr ''human''), (''value'', JStr ''2+2?'')]]
     @ [(''from'', JStr ''human''), (''value'', JStr ''3+3?'')]
     # [[(''from'', JStr ''gpt''), (''value'', JStr ''9'')]] \<and>
   answered (backend_of cut_env (assigned cut_env 0)) ''vicuna'' (system_context misordered_sample)
     [[(''from'', JStr ''human''), (''value'', JStr ''2+2?'')]] ['' 4 ''] \<and>
   chat_create (backend_of cut_env (assigned cut_env 0)) ''vicuna''
     (system_context misordered_sample
      @ pairs_context [[(''from'', JStr ''human''), (''value'', JStr ''2+2?'')]] ['' 4 '']
      @ [user_message (JStr ''3+3?'')]) = ChatResponse ''length'' ''fo'' \<and>
   writable fs_ready (output_path cut_env) \<and>
   length (events (generate_data cut_env misordered_sample 0 fs_ready)) = 4 \<and>
   outcome (generate_data cut_env misordered_sample 0 fs_ready) = Returned \<and>
   files (fs_after (generate_data cut_env misordered_sample 0 fs_ready)) out_path =
     Some (''{"conversations": [{"from": "human", "value": "2+2?"}, {"from": "gpt", "value": "4"}]}''
           @ [CHR 0x0A])\<close>
proof -
  let ?h1 = "[(''from'', JStr ''human''), (''value'', JStr ''2+2?'')]"
  let ?h2 = "[(''from'', JStr ''human''), (''value'', JStr ''3+3?'')]"
  let ?g = "[(''from'', JStr ''gpt''), (''value'', JStr ''9'')]"
  have env: "api_base_pool cut_env = [Localhost 8000]" "chat cut_env"
    "output_path cut_env = out_path" "backend_of cut_env (assigned cut_env 0) = cut_backend"
    by (simp_all add: cut_env_def stub_env_def)
  have be: "models_list cut_backend = Some (''vicuna'' # [])"
    "chat_create cut_backend model_name ctx =
       (if length ctx = 1 then ChatResponse ''stop'' '' 4 '' else ChatResponse ''length'' ''fo'')"
    for model_name ctx
    by (simp_all add: cut_backend_def stub_backend_def)
  have a1: "api_base_pool cut_env \<noteq> []" by (simp add: env)
  have a2: "chat cut_env" by (simp add: env)
  have a3: "models_list (backend_of cut_env (assigned cut_env 0)) = Some (''vicuna'' # [])"
    by (simp add: env be)
  have a4: "\<forall>s \<in> set (system_turns misordered_sample). map_of s ''text'' \<noteq> None"
    by (simp add: misordered_turns)
  have a5: "user_turns misordered_sample = [?h1] @ ?h2 # [?g]"
    by (simp add: misordered_turns)
  have a6: "answered (backend_of cut_env (assigned cut_env 0)) ''vicuna''
              (system_context misordered_sample) [?h1] ['' 4 '']"
    by (simp add: env be misordered_turns)
  have a7: "map_of ?h2 ''from'' = Some (JStr ''human'')" by simp
  have a8: "map_of ?h2 ''value'' \<noteq> None" by simp
  have fl: "field ?h2 ''value'' = JStr ''3+3?''" by (simp add: field_def)
  have a9: "chat_create (backend_of cut_env (assigned cut_env 0)) ''vicuna''
              (system_context misordered_sample @ pairs_context [?h1] ['' 4 '']
               @ [user_message (field ?h2 ''value'')]) = ChatResponse ''length'' ''fo''"
    by (simp add: env be misordered_turns pairs_context_def)
  have a10: "writable fs_ready (output_path cut_env)"
    by (simp add: env writable_fs_ready)
  have rec: "system_turns misordered_sample @ pairs_record [?h1] ['' 4 ''] = [?h1, gpt_turn ''4'']"
    by (simp add: misordered_turns pairs_record_def strip_examples)
  from chat_truncation [OF a1 a2 a3 a4 a5 a6 a7 a8 a9 a10]
  have "length (events (generate_data cut_env misordered_sample 0 fs_ready)) = 4 \<and>
        outcome (generate_data cut_env misordered_sample 0 fs_ready) = Returned \<and>
        files (fs_after (generate_data cut_env misordered_sample 0 fs_ready)) out_path =
          Some (dumps_conversations [?h1, gpt_turn ''4''] @ [CHR 0x0A])"
    unfolding rec by (simp add: env files_append_fs_ready)
  with a1 a2 a3 a5 a6 a9 a10 show ?thesis
    unfolding fl first_pair_line by (simp add: misordered_turns)
qed

subsection \<open>Turns out of order\<close>

lemma chat_mode_returns:
  assumes "leading_system messages = Inr (conv0, out0, rest)"
    and "chat_loop client model_name (every_other rest)
           \<lparr>converted = conv0, output_conv = out0, calls = ev\<rparr> = (Return, st)"
  shows "chat_mode e client model_name messages ev fs =
           \<lparr>outcome = Returned, events = calls st, fs_after = fs\<rparr>"
  using assms by (simp add: chat_mode_def)

text \<open>
  Claim C5, as the script behaves. The speaker check is made when the loop reaches a turn.
  In chat mode, when every call for the turns \<open>done\<close> before it was answered and the turn
  \<open>m\<close> at the next user position carries a speaker other than \<^verbatim>\<open>human\<close>, the unit
  returns without error and without writing anything, whatever was accumulated for the
  earlier turns, and makes no further call.
\<close>

theorem misordered_abort:
  assumes "api_base_pool e \<noteq> []" and "chat e"
    and "models_list (backend_of e (assigned e idx)) = Some (model_name # others)"
    and "\<forall>s \<in> set (system_turns messages). map_of s ''text'' \<noteq> None"
    and "user_turns messages = done @ m # later"
    and "answered (backend_of e (assigned e idx)) model_name (system_context messages) done rs"
    and "map_of m ''from'' = Some f" and "f \<noteq> JStr ''human''"
  shows "outcome (generate_data e messages idx fs) = Returned \<and>
         fs_after (generate_data e messages idx fs) = fs \<and>
         length (events (generate_data e messages idx fs)) = 2 + length done"
proof -
  let ?client = "backend_of e (assigned e idx)"
  let ?ev = "[ClientNew (assigned e idx), ModelsList]"
  let ?st0 = "\<lparr>converted = system_context messages, output_conv = system_turns messages,
              calls = ?ev\<rparr>"
  let ?st1 = "after_turns model_name done rs ?st0"
  from assms(6) have len: "length rs = length done" by (rule answered_length)
  have l1: "length (calls ?st1) = 2 + length done"
    using calls_after_turns[OF len, of model_name ?st0] by simp
  from assms(7) have f: "getitem m ''from'' = Inr f" by (simp add: getitem_Inr)
  from assms(6) have "answered ?client model_name (converted ?st0) done rs" by simp
  then have "chat_loop ?client model_name (done @ m # later) ?st0 =
             chat_loop ?client model_name (m # later) ?st1"
    by (rule chat_loop_answered)
  also have "\<dots> = (Return, ?st1)"
    using f assms(8) by simp
  finally have loop: "chat_loop ?client model_name
       (every_other (drop (length (system_turns messages)) messages)) ?st0 = (Return, ?st1)"
    using assms(5) by (simp add: user_turns_def)
  from assms(7) have "map_of m ''from'' \<noteq> None" by simp
  from first_turn_from[OF assms(6) this, of later] assms(5)
  have "map_of (hd (user_turns messages)) ''from'' \<noteq> None" by simp
  with assms(5) have "messages \<noteq> [] \<longrightarrow> map_of (hd messages) ''from'' \<noteq> None"
    using user_turns_first[of messages "hd (user_turns messages)" "tl (user_turns messages)"]
    by (cases "done") simp_all
  from leading_system_eq[OF assms(4) this]
  have ls: "leading_system messages =
           Inr (system_context messages, system_turns messages,
                drop (length (system_turns messages)) messages)" .
  have "generate_data e messages idx fs = chat_mode e ?client model_name messages ?ev fs"
    using generate_data_listed[OF assms(1,3)] assms(2) by simp
  also note chat_mode_returns[OF ls loop]
  finally show ?thesis using l1 by simp
qed

theorem misordered_abort_witness:
  "api_base_pool stub_env \<noteq> [] \<and> chat stub_env \<and>
   models_list (backend_of stub_env (assigned stub_env 0)) = Some [''vicuna''] \<and>
   system_turns misordered_sample = [] \<and>
   user_turns misordered_sample =
     [[(''from'', JStr ''human''), (''value'', JStr ''2+2?'')],
      [(''from'', JStr ''human''), (''value'', JStr ''3+3?'')]]
     @ [(''from'', JStr ''gpt''), (''value'', JStr ''9'')] # [] \<and>
   answered (backend_of stub_env (assigned stub_env 0)) ''vicuna'' (system_context misordered_sample)
     [[(''from'', JStr ''human''), (''value'', JStr ''2+2?'')],
      [(''from'', JStr ''human''), (''value'', JStr ''3+3?'')]] [''4'', ''4''] \<and>
   map_of [(''from'', JStr ''gpt''), (''value'', JStr ''9'')] ''from'' = Some (JStr ''gpt'') \<and>
   JStr ''gpt'' \<noteq> JStr ''human'' \<and>
   outcome (generate_data stub_env misordered_sample 0 fs_ready) = Returned \<and>
   fs_after (generate_data stub_env misordered_sample 0 fs_ready) = fs_ready \<and>
   length (events (generate_data stub_env misordered_sample 0 fs_ready)) = 4"
proof -
  let ?h1 = "[(''from'', JStr ''human''), (''value'', JStr ''2+2?'')]"
  let ?h2 = "[(''from'', JStr ''human''), (''value'', JStr ''3+3?'')]"
  let ?g = "[(''from'', JStr ''gpt''), (''value'', JStr ''9'')]"
  have a1: "api_base_pool stub_env \<noteq> []" by (simp add: stub_env_simps)
  have a2: "chat stub_env" by (simp add: stub_env_simps)
  have a3: "models_list (backend_of stub_env (assigned stub_env 0)) = Some (''vicuna'' # [])"
    by (simp add: stub_env_simps stub_backend_simps)
  have a4: "\<forall>s \<in> set (system_turns misordered_sample). map_of s ''text'' \<noteq> None"
    by (simp add: misordered_turns)
  have a5: "user_turns misordered_sample = [?h1, ?h2] @ ?g # []"
    by (simp add: misordered_turns)
  have a6: "answered (backend_of stub_env (assigned stub_env 0)) ''vicuna''
              (system_context misordered_sample) [?h1, ?h2] [''4'', ''4'']"
    by (simp add: stub_env_simps stub_backend_simps misordered_turns)
  have a7: "map_of ?g ''from'' = Some (JStr ''gpt'')" by simp
  have a8: "JStr ''gpt'' \<noteq> JStr ''human''" by simp
  from misordered_abort [OF a1 a2 a3 a4 a5 a6 a7 a8, of fs_ready] a1 a2 a3 a5 a6 a7 a8
  show ?thesis by (simp add: misordered_turns)
qed

text \<open>
  A sample with an assistant turn at its third user position, on a backend that answers the
  first call and raises on the second: the loop breaks at the second user turn, never
  reaches the third, and the record of the first exchange is written.
\<close>

theorem misordered_abort_counterexample:
  \<open>map_of (user_turns misordered_sample ! 2) ''from'' = Some (JStr ''gpt'') \<and>
   outcome (generate_data once_env misordered_sample 0 fs_ready) = Returned \<and>
   files (fs_after (generate_data once_env misordered_sample 0 fs_ready)) out_path =
     Some (''{"conversations": [{"from": "human", "value": "2+2?"}, {"from": "gpt", "value": "4"}]}''
           @ [CHR 0x0A])\<close>
proof -
  have u: "map_of (user_turns misordered_sample ! 2) ''from'' = Some (JStr ''gpt'')"
    by (simp add: misordered_turns)
  have g: "generate_data once_env misordered_sample 0 fs_ready =
           \<lparr>outcome = Returned,
            events = [ClientNew (Localhost 8000), ModelsList,
                      ChatCreate ''vicuna'' [user_message (JStr ''2+2?'')],
                      ChatCreate ''vicuna'' [user_message (JStr ''2+2?''), assistant_message ''4'',
                                            user_message (JStr ''3+3?'')]],
            fs_after = append_line fs_ready out_path
               (dumps_conversations [[(''from'', JStr ''human''), (''value'', JStr ''2+2?'')],
                                     gpt_turn ''4''] @ [CHR 0x0A])\<rparr>"
    by (simp add: generate_data_def select_base_url_def once_env_def stub_env_def once_backend_def
        stub_backend_def Let_def chat_mode_def misordered_sample_def getitem_def strip_examples
        open_append_writable[OF writable_fs_ready] user_message_def assistant_message_def)
  show ?thesis unfolding g using u by (simp add: files_append_fs_ready first_pair_line)
qed

subsection \<open>Empty and non-empty records\<close>

lemma append_line_changes: "s \<noteq> [] \<Longrightarrow> append_line fs p s \<noteq> fs"
proof
  assume s: "s \<noteq> []" and eq: "append_line fs p s = fs"
  from eq have "files (append_line fs p s) p = files fs p" by simp
  with s show False by (cases "files fs p") (simp_all add: append_line_def)
qed

lemma chat_mode_not_ended:
  assumes "leading_system messages = Inr (conv0, out0, rest)"
    and "chat_loop client model_name (every_other rest)
           \<lparr>converted = conv0, output_conv = out0, calls = ev\<rparr> = (x, st)"
    and "x \<noteq> Ended"
  shows "fs_after (chat_mode e client model_name messages ev fs) = fs"
  using assms by (cases x) (simp_all add: chat_mode_def)

text \<open>
  Claim C6, as the script behaves. In chat mode with a listed model and a writable output
  path: when the call for the first user turn raises, the unit writes nothing if the sample
  has no leading system turn, and writes the record that holds only the system turn if it
  has one. In general the file system changes exactly when the loop ended (at the end of
  the turns or by a \<^verbatim>\<open>break\<close>) with a non-empty record, and then that record is
  appended as one line.
\<close>

theorem record_written:
  assumes "api_base_pool e \<noteq> []" and "chat e"
    and "models_list (backend_of e (assigned e idx)) = Some (model_name # others)"
    and "writable fs (output_path e)"
  shows "((\<forall>s \<in> set (system_turns messages). map_of s ''text'' \<noteq> None) \<and>
          user_turns messages = m # later \<and>
          map_of m ''from'' = Some (JStr ''human'') \<and> map_of m ''value'' \<noteq> None \<and>
          chat_create (backend_of e (assigned e idx)) model_name
            (system_context messages @ [user_message (field m ''value'')]) = ChatError
          \<longrightarrow> outcome (generate_data e messages idx fs) = Returned \<and>
              fs_after (generate_data e messages idx fs) =
                (if system_turns messages = [] then fs
                 else append_line fs (output_path e)
                        (dumps_conversations (system_turns messages) @ [CHR 0x0A]))) \<and>
         (leading_system messages = Inr (conv0, out0, rest) \<and>
          chat_loop (backend_of e (assigned e idx)) model_name (every_other rest)
            \<lparr>converted = conv0, output_conv = out0,
             calls = [ClientNew (assigned e idx), ModelsList]\<rparr> = (x, st)
          \<longrightarrow> (fs_after (generate_data e messages idx fs) \<noteq> fs) = (x = Ended \<and> output_conv st \<noteq> []) \<and>
              (x = Ended \<and> output_conv st \<noteq> []
               \<longrightarrow> outcome (generate_data e messages idx fs) = Returned \<and>
                   fs_after (generate_data e messages idx fs) =
                     append_line fs (output_path e)
                       (dumps_conversations (output_conv st) @ [CHR 0x0A])))"
proof (intro conjI impI)
  let ?client = "backend_of e (assigned e idx)"
  let ?ev = "[ClientNew (assigned e idx), ModelsList]"
  have g: "generate_data e messages idx fs = chat_mode e ?client model_name messages ?ev fs"
    using generate_data_listed[OF assms(1,3)] assms(2) by simp
  {
    assume a: "(\<forall>s \<in> set (system_turns messages). map_of s ''text'' \<noteq> None) \<and>
          user_turns messages = m # later \<and>
          map_of m ''from'' = Some (JStr ''human'') \<and> map_of m ''value'' \<noteq> None \<and>
          chat_create ?client model_name
            (system_context messages @ [user_message (field m ''value'')]) = ChatError"
    let ?st0 = "\<lparr>converted = system_context messages, output_conv = system_turns messages,
                calls = ?ev\<rparr>"
    let ?conv = "system_context messages @ [user_message (field m ''value'')]"
    let ?st2 = "\<lparr>converted = ?conv, output_conv = system_turns messages,
                calls = ?ev @ [ChatCreate model_name ?conv]\<rparr>"
    from a have "chat_loop ?client model_name (m # later) ?st0 = (Ended, ?st2)"
      using chat_loop_stops[of m ?client model_name ?st0 later] by simp
    with a have loop: "chat_loop ?client model_name
         (every_other (drop (length (system_turns messages)) messages)) ?st0 = (Ended, ?st2)"
      by (simp add: user_turns_def)
    from a have "messages \<noteq> [] \<longrightarrow> map_of (hd messages) ''from'' \<noteq> None"
      using user_turns_first[of messages m later] by simp
    with a have ls: "leading_system messages =
           Inr (system_context messages, system_turns messages,
                drop (length (system_turns messages)) messages)"
      using leading_system_eq[of messages] by simp
    from chat_mode_ended[OF ls loop assms(4)] g
    have r: "generate_data e messages idx fs =
        \<lparr>outcome = Returned, events = calls ?st2,
         fs_after = (if output_conv ?st2 = [] then fs
                     else append_line fs (output_path e)
                            (dumps_conversations (output_conv ?st2) @ [CHR 0x0A]))\<rparr>"
      by simp
    show "outcome (generate_data e messages idx fs) = Returned" unfolding r by simp
    show "fs_after (generate_data e messages idx fs) =
                (if system_turns messages = [] then fs
                 else append_line fs (output_path e)
                        (dumps_conversations (system_turns messages) @ [CHR 0x0A]))"
      unfolding r by simp
  }
  {
    assume b: "leading_system messages = Inr (conv0, out0, rest) \<and>
          chat_loop ?client model_name (every_other rest)
            \<lparr>converted = conv0, output_conv = out0, calls = ?ev\<rparr> = (x, st)"
    then have ls: "leading_system messages = Inr (conv0, out0, rest)"
      and loop: "chat_loop ?client model_name (every_other rest)
            \<lparr>converted = conv0, output_conv = out0, calls = ?ev\<rparr> = (x, st)"
      by simp_all
    show "(fs_after (generate_data e messages idx fs) \<noteq> fs) = (x = Ended \<and> output_conv st \<noteq> [])"
    proof (cases "x = Ended")
      case True
      with chat_mode_ended[OF ls _ assms(4)] loop g show ?thesis
        by (simp add: append_line_changes)
    next
      case False
      with chat_mode_not_ended[OF ls loop] g show ?thesis by simp
    qed
    {
      assume c: "x = Ended \<and> output_conv st \<noteq> []"
      with chat_mode_ended[OF ls _ assms(4)] loop g
      have r: "generate_data e messages idx fs =
        \<lparr>outcome = Returned, events = calls st,
         fs_after = append_line fs (output_path e)
                            (dumps_conversations (output_conv st) @ [CHR 0x0A])\<rparr>"
        by simp
      show "outcome (generate_data e messages idx fs) = Returned" unfolding r by simp
      show "fs_after (generate_data e messages idx fs) =
                     append_line fs (output_path e)
                       (dumps_conversations (output_conv st) @ [CHR 0x0A])"
        unfolding r by simp
    }
  }
qed

lemma short_turns:
  "system_turns short_sample = [[(''from'', JStr ''system''), (''text'', JStr ''be terse'')]]"
  "system_context short_sample = [system_message (JStr ''be terse'')]"
  "user_turns short_sample = [[(''from'', JStr ''human''), (''value'', JStr ''2+2?'')]]"
  by (simp_all add: short_sample_def system_turns_def system_context_def user_turns_def field_def)

lemma system_only_line:
  \<open>dumps_conversations [[(''from'', JStr ''system''), (''text'', JStr ''be terse'')]]
    = ''{"conversations": [{"from": "system", "text": "be terse"}]}''\<close>
  by (simp add: dumps_conversations_def dumps_list_def dumps_dict_def dumps_str_def escape_char_def)

lemma failing_env_simps:
  "api_base_pool failing_env = [Localhost 8000]" "chat failing_env"
  "output_path failing_env = out_path" "backend_of failing_env u = failing_backend"
  "assigned failing_env idx = Localhost 8000"
  "models_list failing_backend = Some [''vicuna'']"
  "chat_create failing_backend model_name ctx = ChatError"
  by (simp_all add: failing_env_def stub_env_def assigned_def failing_backend_def stub_backend_def)

theorem record_written_witness:
  \<open>api_base_pool failing_env \<noteq> [] \<and> chat failing_env \<and>
   models_list (backend_of failing_env (assigned failing_env 0)) = Some [''vicuna''] \<and>
   writable fs_ready (output_path failing_env) \<and>
   system_turns short_sample = [[(''from'', JStr ''system''), (''text'', JStr ''be terse'')]] \<and>
   user_turns short_sample = [(''from'', JStr ''human''), (''value'', JStr ''2+2?'')] # [] \<and>
   chat_create (backend_of failing_env (assigned failing_env 0)) ''vicuna''
     (system_context short_sample @ [user_message (JStr ''2+2?'')]) = ChatError \<and>
   leading_system short_sample =
     Inr ([system_message (JStr ''be terse'')],
          [[(''from'', JStr ''system''), (''text'', JStr ''be terse'')]],
          [[(''from'', JStr ''human''), (''value'', JStr ''2+2?'')]]) \<and>
   chat_loop (backend_of failing_env (assigned failing_env 0)) ''vicuna''
     (every_other [[(''from'', JStr ''human''), (''value'', JStr ''2+2?'')]])
     \<lparr>converted = [system_message (JStr ''be terse'')],
      output_conv = [[(''from'', JStr ''system''), (''text'', JStr ''be terse'')]],
      calls = [ClientNew (assigned failing_env 0), ModelsList]\<rparr>
     = (Ended,
        \<lparr>converted = [system_message (JStr ''be terse''), user_message (JStr ''2+2?'')],
         output_conv = [[(''from'', JStr ''system''), (''text'', JStr ''be terse'')]],
         calls = [ClientNew (assigned failing_env 0), ModelsList,
                  ChatCreate ''vicuna''
                    [system_message (JStr ''be terse''), user_message (JStr ''2+2?'')]]\<rparr>) \<and>
   outcome (generate_data failing_env short_sample 0 fs_ready) = Returned \<and>
   fs_after (generate_data failing_env short_sample 0 fs_ready) =
     append_line fs_ready out_path
       (''{"conversations": [{"from": "system", "text": "be terse"}]}'' @ [CHR 0x0A]) \<and>
   fs_after (generate_data failing_env short_sample 0 fs_ready) \<noteq> fs_ready \<and>
   user_turns misordered_sample =
     [(''from'', JStr ''human''), (''value'', JStr ''2+2?'')]
     # [[(''from'', JStr ''human''), (''value'', JStr ''3+3?'')],
        [(''from'', JStr ''gpt''), (''value'', JStr ''9'')]] \<and>
   fs_after (generate_data failing_env misordered_sample 0 fs_ready) = fs_ready\<close>
proof -
  let ?s = "[(''from'', JStr ''system''), (''text'', JStr ''be terse'')]"
  let ?h1 = "[(''from'', JStr ''human''), (''value'', JStr ''2+2?'')]"
  let ?h2 = "[(''from'', JStr ''human''), (''value'', JStr ''3+3?'')]"
  let ?g = "[(''from'', JStr ''gpt''), (''value'', JStr ''9'')]"
  let ?ev = "[ClientNew (assigned failing_env 0), ModelsList]"
  let ?st = "\<lparr>converted = [system_message (JStr ''be terse''), user_message (JStr ''2+2?'')],
         output_conv = [?s],
         calls = [ClientNew (assigned failing_env 0), ModelsList,
                  ChatCreate ''vicuna''
                    [system_message (JStr ''be terse''), user_message (JStr ''2+2?'')]]\<rparr>"
  have a1: "api_base_pool failing_env \<noteq> []" by (simp add: failing_env_simps)
  have a2: "chat failing_env" by (simp add: failing_env_simps)
  have a3: "models_list (backend_of failing_env (assigned failing_env 0)) = Some (''vicuna'' # [])"
    by (simp add: failing_env_simps)
  have a4: "writable fs_ready (output_path failing_env)"
    by (simp add: failing_env_simps writable_fs_ready)
  have fl: "field ?h1 ''value'' = JStr ''2+2?''" by (simp add: field_def)
  have b1: "\<forall>s \<in> set (system_turns short_sample). map_of s ''text'' \<noteq> None"
    by (simp add: short_turns)
  have b2: "user_turns short_sample = ?h1 # []" by (simp add: short_turns)
  have b3: "map_of ?h1 ''from'' = Some (JStr ''human'')" "map_of ?h1 ''value'' \<noteq> None" by simp_all
  have b4: "chat_create (backend_of failing_env (assigned failing_env 0)) ''vicuna''
     (system_context short_sample @ [user_message (field ?h1 ''value'')]) = ChatError"
    by (simp add: failing_env_simps)
  have c1: "leading_system short_sample = Inr ([system_message (JStr ''be terse'')], [?s], [?h1])"
    by (simp add: short_sample_def getitem_def)
  have c2: "chat_loop (backend_of failing_env (assigned failing_env 0)) ''vicuna''
     (every_other [?h1])
     \<lparr>converted = [system_message (JStr ''be terse'')], output_conv = [?s], calls = ?ev\<rparr>
     = (Ended, ?st)"
    by (simp add: failing_env_simps getitem_def Let_def)
  have c3: "Ended = Ended \<and> output_conv ?st \<noteq> []" by simp
  have d2: "user_turns misordered_sample = ?h1 # [?h2, ?g]" by (simp add: misordered_turns)
  have d1: "\<forall>s \<in> set (system_turns misordered_sample). map_of s ''text'' \<noteq> None"
    by (simp add: misordered_turns)
  have d4: "chat_create (backend_of failing_env (assigned failing_env 0)) ''vicuna''
     (system_context misordered_sample @ [user_message (field ?h1 ''value'')]) = ChatError"
    by (simp add: failing_env_simps)
  note w1 = record_written [OF a1 a2 a3 a4, of short_sample ?h1 "[]"
              "[system_message (JStr ''be terse'')]" "[?s]" "[?h1]" Ended ?st]
  note w2 = record_written [OF a1 a2 a3 a4, of misordered_sample ?h1 "[?h2, ?g]"]
  from w1 b1 b2 b3 b4 c1 c2 c3
  have r1: "outcome (generate_data failing_env short_sample 0 fs_ready) = Returned \<and>
        fs_after (generate_data failing_env short_sample 0 fs_ready) =
          append_line fs_ready (output_path failing_env)
            (dumps_conversations (output_conv ?st) @ [CHR 0x0A]) \<and>
        fs_after (generate_data failing_env short_sample 0 fs_ready) \<noteq> fs_ready"
    by blast
  from w2 d1 d2 b3 d4
  have r2: "fs_after (generate_data failing_env misordered_sample 0 fs_ready) =
            (if system_turns misordered_sample = [] then fs_ready
             else append_line fs_ready (output_path failing_env)
                    (dumps_conversations (system_turns misordered_sample) @ [CHR 0x0A]))"
    by blast
  from r2 have r2': "fs_after (generate_data failing_env misordered_sample 0 fs_ready) = fs_ready"
    by (simp add: misordered_turns)
  from r1 have r1': \<open>outcome (generate_data failing_env short_sample 0 fs_ready) = Returned \<and>
        fs_after (generate_data failing_env short_sample 0 fs_ready) =
          append_line fs_ready out_path
            (''{"conversations": [{"from": "system", "text": "be terse"}]}'' @ [CHR 0x0A]) \<and>
        fs_after (generate_data failing_env short_sample 0 fs_ready) \<noteq> fs_ready\<close>
    by (simp add: failing_env_simps system_only_line append_line_changes)
  have b4': "chat_create (backend_of failing_env (assigned failing_env 0)) ''vicuna''
     (system_context short_sample @ [user_message (JStr ''2+2?'')]) = ChatError"
    by (simp add: failing_env_simps)
  note b0 = short_turns(1)
  from a1 a2 a3 a4 b0 b2 b4' c1 c2 r1' d2 r2' show ?thesis by blast
qed

text \<open>
  A sample with a leading system turn whose first chat call raises: one line is written,
  the record of the system turn alone.
\<close>

theorem record_written_counterexample:
  \<open>chat_create (backend_of failing_env (assigned failing_env 0)) ''vicuna''
     [system_message (JStr ''be terse''), user_message (JStr ''2+2?'')] = ChatError \<and>
   events (generate_data failing_env short_sample 0 fs_ready) =
     [ClientNew (Localhost 8000), ModelsList,
      ChatCreate ''vicuna'' [system_message (JStr ''be terse''), user_message (JStr ''2+2?'')]] \<and>
   files (fs_after (generate_data failing_env short_sample 0 fs_ready)) out_path =
     Some (''{"conversations": [{"from": "system", "text": "be terse"}]}'' @ [CHR 0x0A]) \<and>
   count_lines (''{"conversations": [{"from": "system", "text": "be terse"}]}'' @ [CHR 0x0A]) = 1\<close>
proof -
  have g: "generate_data failing_env short_sample 0 fs_ready =
           \<lparr>outcome = Returned,
            events = [ClientNew (Localhost 8000), ModelsList,
                      ChatCreate ''vicuna'' [system_message (JStr ''be terse''),
                                            user_message (JStr ''2+2?'')]],
            fs_after = append_line fs_ready out_path
               (dumps_conversations [[(''from'', JStr ''system''), (''text'', JStr ''be terse'')]]
                @ [CHR 0x0A])\<rparr>"
    by (simp add: generate_data_def select_base_url_def failing_env_def stub_env_def
        failing_backend_def stub_backend_def Let_def chat_mode_def short_sample_def getitem_def
        open_append_writable[OF writable_fs_ready])
  show ?thesis unfolding g
    by (simp add: failing_env_simps files_append_fs_ready system_only_line)
qed

end
